theory Spec2Isabelle
  imports Complex_Main
begin

section \<open>Values, properties and features\<close>

text \<open>
  The model follows \<^verbatim>\<open>DeepTrack/features.py\<close>. A feature is a Python object with a
  class, a \<^verbatim>\<open>properties\<close> dictionary and the flag
  \<^verbatim>\<open>has_updated_since_last_resolve\<close>. Objects are modelled as values: a feature
  that is the value of a property is held inside that property, and every method that
  mutates a feature returns the new feature. A pipeline is therefore a tree; two
  references to one object are two equal values.

  Exceptions are values of \<open>error\<close>; a method that can raise returns \<open>error + 'a\<close>.
\<close>

datatype error = TypeError | AttributeError | KeyError | Exception

datatype bound_self = Owner | Original "error + int"

datatype val =
    VNone
  | VInt int
  | VReal real
  | VFeature feature
  | VList "val list"
and feature =
    Feature (kind: kind)
            (properties: "(string \<times> property) list")
            (has_updated_since_last_resolve: bool)
and property =
    Property (current_value: val) (sampling_rule: "sampler option")
and sampler =
    Rand
  | Callable "real \<Rightarrow> int"
  | Replicas bound_self feature
  | Generator "nat \<Rightarrow> int" nat
and kind =
    FeatureBranch
  | FeatureProbability
  | FeatureDuplicate feature
  | Load string
  | Add

text \<open>
  \<^item> \<open>VNone\<close> is Python's \<^verbatim>\<open>None\<close>, \<open>VInt\<close> an int (also a scalar raw artifact),
    \<open>VReal\<close> a float, \<open>VFeature\<close> a feature, \<open>VList\<close> a list.
  \<^item> A sampler is a callable given to a property: \<open>Rand\<close> is \<^verbatim>\<open>np.random.rand\<close>;
    \<open>Callable g\<close> is a user callable \<^verbatim>\<open>lambda: g(np.random.rand())\<close> returning an int;
    \<open>Replicas self t\<close> is the lambda of \<^verbatim>\<open>FeatureDuplicate.__init__\<close>, closed over
    \<^verbatim>\<open>self\<close> and the template \<open>t\<close>; \<open>Generator items pos\<close> is the generator object that
    \<^verbatim>\<open>next(self)\<close> returns in \<^verbatim>\<open>Load.__init__\<close>, with the items it will yield
    and the number already yielded.
  \<^item> The lambda reads \<^verbatim>\<open>self.properties["num_duplicates"].current_value\<close>. In the
    feature that \<^verbatim>\<open>__init__\<close> built, \<^verbatim>\<open>self\<close> is the feature that owns the property:
    \<open>Owner\<close>. A deep copy of that feature holds the same function object, whose
    \<^verbatim>\<open>self\<close> is still the feature that was copied: \<open>Original r\<close>, where \<open>r\<close> is what
    reading the count of that feature gives.
  \<^item> \<open>FeatureDuplicate t\<close> carries the attribute \<^verbatim>\<open>self.feature\<close>, \<open>Load path\<close> the
    attribute \<^verbatim>\<open>self.path\<close>. \<open>Add\<close> is the leaf class named in the message of
    \<^verbatim>\<open>Load.setParent\<close>: its \<^verbatim>\<open>get\<close> adds its property \<^verbatim>\<open>value\<close> to the image.
\<close>

text \<open>The state of \<^verbatim>\<open>np.random\<close>: the uniform draws it will return, and how many were taken.\<close>

record world =
  uniform :: "nat \<Rightarrow> real"
  drawn :: nat

definition np_random_rand :: "world \<Rightarrow> real \<times> world" where
  "np_random_rand w = (uniform w (drawn w), w\<lparr>drawn := Suc (drawn w)\<rparr>)"

type_synonym arg = "val + sampler"

type_synonym snapshot = "(string \<times> val) list"

subsection \<open>Property and PropertyDict\<close>

text \<open>
  Modelled from the spec: the module \<^verbatim>\<open>DeepTrack.properties\<close> (classes
  \<^verbatim>\<open>Property\<close> and \<^verbatim>\<open>PropertyDict\<close>) is imported by the source and not part of it.
  A property is a constant or a zero-argument sampler. Before its first resample a
  sampled property holds \<^verbatim>\<open>None\<close>.
\<close>

definition Property_init :: "arg \<Rightarrow> property" where
  "Property_init a = (case a of Inl v \<Rightarrow> Property v None | Inr s \<Rightarrow> Property VNone (Some s))"

text \<open>
  Modelled from the spec: \<^verbatim>\<open>PropertyDict.current_value_dict\<close>, the mapping of each name
  to the current value, in insertion order.
\<close>

definition current_value_dict :: "(string \<times> property) list \<Rightarrow> snapshot" where
  "current_value_dict ps = map (\<lambda>(name, p). (name, current_value p)) ps"

text \<open>A keyword parameter that was not passed has its default, \<^verbatim>\<open>None\<close>.\<close>

definition kwarg :: "snapshot \<Rightarrow> string \<Rightarrow> val" where
  "kwarg props name = (case map_of props name of None \<Rightarrow> VNone | Some v \<Rightarrow> v)"

text \<open>
  \<^verbatim>\<open>Feature.resolve\<close> calls \<^verbatim>\<open>self.get(image, **properties)\<close>. Python raises
  \<^verbatim>\<open>TypeError\<close> (multiple values for an argument) when a keyword of the call names a
  parameter that is passed positionally: \<^verbatim>\<open>image\<close> or \<^verbatim>\<open>self\<close>.
\<close>

definition binds_positional :: "snapshot \<Rightarrow> bool" where
  "binds_positional props = (''image'' \<in> set (map fst props) \<or> ''self'' \<in> set (map fst props))"

text \<open>
  What the lambda of \<^verbatim>\<open>FeatureDuplicate.__init__\<close> passes to \<^verbatim>\<open>range\<close>: the current
  value of the property \<^verbatim>\<open>num_duplicates\<close>. A missing key raises \<^verbatim>\<open>KeyError\<close>, and
  \<^verbatim>\<open>range\<close> raises \<^verbatim>\<open>TypeError\<close> on anything but an int.
\<close>

definition read_count :: "(string \<times> property) list \<Rightarrow> error + int" where
  "read_count ps =
     (case map_of ps ''num_duplicates'' of
        None \<Rightarrow> Inl KeyError
      | Some p \<Rightarrow> (case current_value p of VInt n \<Rightarrow> Inr n | _ \<Rightarrow> Inl TypeError))"

subsection \<open>copy.deepcopy\<close>

text \<open>
  \<^verbatim>\<open>copy.deepcopy\<close> walks the attributes of an object: the flag, the attribute
  \<^verbatim>\<open>self.feature\<close>, the properties and their current values. It raises
  \<^verbatim>\<open>TypeError\<close> at a generator object (\<open>copyable\<close>). It copies a function by
  reference and does not enter it: the template inside a lambda is not walked, and
  the lambda in the copy keeps the \<^verbatim>\<open>self\<close> it was closed over, which from then on is
  the feature that was copied (\<open>rebind\<close>). Everything else in a copy is equal to the
  original.
\<close>

fun copyable_val :: "val \<Rightarrow> bool"
and copyable_vals :: "val list \<Rightarrow> bool"
and copyable_feature :: "feature \<Rightarrow> bool"
and copyable_dict :: "(string \<times> property) list \<Rightarrow> bool"
and copyable_property :: "property \<Rightarrow> bool"
and copyable_kind :: "kind \<Rightarrow> bool"
where
  "copyable_val VNone = True"
| "copyable_val (VInt n) = True"
| "copyable_val (VReal x) = True"
| "copyable_val (VFeature f) = copyable_feature f"
| "copyable_val (VList vs) = copyable_vals vs"
| "copyable_vals [] = True"
| "copyable_vals (v # vs) = (copyable_val v \<and> copyable_vals vs)"
| "copyable_feature (Feature k ps u) = (copyable_kind k \<and> copyable_dict ps)"
| "copyable_dict [] = True"
| "copyable_dict ((name, p) # ps) = (copyable_property p \<and> copyable_dict ps)"
| "copyable_property (Property v None) = copyable_val v"
| "copyable_property (Property v (Some (Generator items pos))) = False"
| "copyable_property (Property v (Some s)) = copyable_val v"
| "copyable_kind (FeatureDuplicate t) = copyable_feature t"
| "copyable_kind k = True"

fun rebind_val :: "val \<Rightarrow> val"
and rebind_vals :: "val list \<Rightarrow> val list"
and rebind_feature :: "feature \<Rightarrow> feature"
and rebind_dict :: "error + int \<Rightarrow> (string \<times> property) list \<Rightarrow> (string \<times> property) list"
and rebind_property :: "error + int \<Rightarrow> property \<Rightarrow> property"
and rebind_kind :: "kind \<Rightarrow> kind"
where
  "rebind_val (VFeature f) = VFeature (rebind_feature f)"
| "rebind_val (VList vs) = VList (rebind_vals vs)"
| "rebind_val v = v"
| "rebind_vals [] = []"
| "rebind_vals (v # vs) = rebind_val v # rebind_vals vs"
| "rebind_feature (Feature k ps u) = Feature (rebind_kind k) (rebind_dict (read_count ps) ps) u"
| "rebind_dict r [] = []"
| "rebind_dict r ((name, p) # ps) = (name, rebind_property r p) # rebind_dict r ps"
| "rebind_property r (Property v (Some (Replicas Owner t))) =
     Property (rebind_val v) (Some (Replicas (Original r) t))"
| "rebind_property r (Property v s) = Property (rebind_val v) s"
| "rebind_kind (FeatureDuplicate t) = FeatureDuplicate (rebind_feature t)"
| "rebind_kind k = k"

definition deepcopy :: "feature \<Rightarrow> error + feature" where
  "deepcopy f = (if copyable_feature f then Inr (rebind_feature f) else Inl TypeError)"

lemma rebind_size:
  "size (rebind_val v) = size v"
  "size_list size (rebind_vals vs) = size_list size vs"
  "size (rebind_feature f) = size f"
  "size_list (size_prod (\<lambda>_. 0) size) (rebind_dict r ps) = size_list (size_prod (\<lambda>_. 0) size) ps"
  "size (rebind_property r p) = size p"
  "size (rebind_kind k) = size k"
  by (induction v and vs and f and r ps and r p and k
      rule: rebind_val_rebind_vals_rebind_feature_rebind_dict_rebind_property_rebind_kind.induct)
     simp_all

lemma deepcopy_Inr: "deepcopy f = Inr c \<Longrightarrow> size c = size f"
  by (auto simp: deepcopy_def rebind_size split: if_splits)

section \<open>Feature.update\<close>

text \<open>
  \<^verbatim>\<open>Feature.update\<close> calls \<^verbatim>\<open>self.properties.update()\<close> when the flag is not set, sets
  the flag and returns \<^verbatim>\<open>self\<close>.

  Modelled from the spec: \<^verbatim>\<open>PropertyDict.update\<close> and \<^verbatim>\<open>Property.update\<close> are not in
  the source. \<open>PropertyDict_update\<close> resamples the entries in insertion order; its first
  argument holds the entries already resampled in this pass, its second the entries
  still to come. \<open>Property_update\<close> calls the sampler of a sampled property, keeps the
  value of a constant one, and updates the feature that is the value of a constant
  property. Its first argument is \<^verbatim>\<open>self.properties\<close> of the owning feature as it is
  when the sampler runs, which the lambda of \<^verbatim>\<open>FeatureDuplicate.__init__\<close> reads when
  its \<^verbatim>\<open>self\<close> is the owner.

  \<open>replicas\<close> is the list comprehension of that lambda:
  \<^verbatim>\<open>[copy.deepcopy(feature).update() for _ in range(n)]\<close>.
\<close>

function (sequential) Feature_update :: "feature \<Rightarrow> world \<Rightarrow> error + feature \<times> world"
and PropertyDict_update ::
  "(string \<times> property) list \<Rightarrow> (string \<times> property) list \<Rightarrow> world
     \<Rightarrow> error + (string \<times> property) list \<times> world"
and Property_update ::
  "(string \<times> property) list \<Rightarrow> property \<Rightarrow> world \<Rightarrow> error + property \<times> world"
and replicas :: "sampler \<Rightarrow> nat \<Rightarrow> world \<Rightarrow> error + val list \<times> world"
where
  "Feature_update (Feature k ps u) w =
     (if \<not> u then
        (case PropertyDict_update [] ps w of
           Inl e \<Rightarrow> Inl e
         | Inr (ps', w') \<Rightarrow> Inr (Feature k ps' True, w'))
      else Inr (Feature k ps True, w))"
| "PropertyDict_update done [] w = Inr (done, w)"
| "PropertyDict_update done ((name, p) # todo) w =
     (case Property_update (done @ (name, p) # todo) p w of
        Inl e \<Rightarrow> Inl e
      | Inr (p', w') \<Rightarrow> PropertyDict_update (done @ [(name, p')]) todo w')"
| "Property_update self_properties (Property (VFeature c) None) w =
     (case Feature_update c w of
        Inl e \<Rightarrow> Inl e
      | Inr (c', w') \<Rightarrow> Inr (Property (VFeature c') None, w'))"
| "Property_update self_properties (Property v None) w = Inr (Property v None, w)"
| "Property_update self_properties (Property v (Some Rand)) w =
     (case np_random_rand w of (x, w') \<Rightarrow> Inr (Property (VReal x) (Some Rand), w'))"
| "Property_update self_properties (Property v (Some (Callable g))) w =
     (case np_random_rand w of (x, w') \<Rightarrow> Inr (Property (VInt (g x)) (Some (Callable g)), w'))"
| "Property_update self_properties (Property v (Some (Generator items pos))) w =
     Inr (Property (VInt (items pos)) (Some (Generator items (Suc pos))), w)"
| "Property_update self_properties (Property v (Some (Replicas self t))) w =
     (case (case self of Owner \<Rightarrow> read_count self_properties | Original r \<Rightarrow> r) of
        Inl e \<Rightarrow> Inl e
      | Inr n \<Rightarrow>
          (case replicas (Replicas self t) (nat n) w of
             Inl e \<Rightarrow> Inl e
           | Inr (fs, w') \<Rightarrow> Inr (Property (VList fs) (Some (Replicas self t)), w')))"
| "replicas s 0 w = Inr ([], w)"
| "replicas (Replicas self t) (Suc n) w =
     (case deepcopy t of
        Inl e \<Rightarrow> Inl e
      | Inr c \<Rightarrow>
          (case Feature_update c w of
             Inl e \<Rightarrow> Inl e
           | Inr (c', w') \<Rightarrow>
               (case replicas (Replicas self t) n w' of
                  Inl e \<Rightarrow> Inl e
                | Inr (fs, w'') \<Rightarrow> Inr (VFeature c' # fs, w''))))"
| "replicas s (Suc n) w = Inl TypeError"
  by pat_completeness auto

termination
  by (relation "inv_image (less_than <*lex*> less_than)
        (\<lambda>x. case x of
           Inl (Inl (f, w)) \<Rightarrow> (size f, 0)
         | Inl (Inr (done, todo, w)) \<Rightarrow> (size_list (size_prod (\<lambda>_. 0) size) todo, 0)
         | Inr (Inl (self_properties, p, w)) \<Rightarrow> (size p, 0)
         | Inr (Inr (s, n, w)) \<Rightarrow> (size s, Suc n))")
     (auto dest: deepcopy_Inr)

section \<open>Images\<close>

text \<open>
  Modelled from the spec: the class \<^verbatim>\<open>Image\<close> of \<^verbatim>\<open>DeepTrack.Image\<close> is imported by
  the source and not part of it. An artifact supports addition and the appending of a
  metadata record. Here an image is a scalar with the list of the records appended to
  it; addition keeps the list, and \<^verbatim>\<open>image.append(properties)\<close> extends it in place.
\<close>

record image =
  pixels :: int
  metadata :: "snapshot list"

definition Image_append :: "image \<Rightarrow> snapshot \<Rightarrow> image" where
  "Image_append img props = img\<lparr>metadata := metadata img @ [props]\<rparr>"

definition Image_add :: "image \<Rightarrow> val \<Rightarrow> error + image" where
  "Image_add img v =
     (case v of VInt n \<Rightarrow> Inr (img\<lparr>pixels := pixels img + n\<rparr>) | _ \<Rightarrow> Inl TypeError)"

section \<open>Feature.resolve and the get methods\<close>

text \<open>
  \<^verbatim>\<open>resolve\<close> mutates the feature it is called on, and a \<^verbatim>\<open>get\<close> that resolves a
  feature found in its keyword arguments mutates that feature, which is the one held by
  the property of the same name. The model returns the mutated feature: \<open>Feature_get\<close>
  returns \<^verbatim>\<open>self\<close> with the resolved features stored back by \<open>set_current_value\<close>.
  \<open>Feature_get f image props\<close> is the call \<^verbatim>\<open>self.get(image, **props)\<close>, the binding of
  the keywords included.
\<close>

fun set_current_value ::
  "(string \<times> property) list \<Rightarrow> string \<Rightarrow> val \<Rightarrow> (string \<times> property) list" where
  "set_current_value [] key v = []"
| "set_current_value ((name, Property v0 s) # ps) key v =
     (if name = key then (name, Property v s) # ps
      else (name, Property v0 s) # set_current_value ps key v)"

definition store :: "feature \<Rightarrow> string \<Rightarrow> val \<Rightarrow> feature" where
  "store f key v =
     Feature (kind f) (set_current_value (properties f) key v) (has_updated_since_last_resolve f)"

text \<open>The comparison \<^verbatim>\<open>random_number < probability\<close>: defined on numbers, a \<^verbatim>\<open>TypeError\<close>
  on \<^verbatim>\<open>None\<close>, a feature or a list.\<close>

fun number :: "val \<Rightarrow> real option" where
  "number (VInt n) = Some (real_of_int n)"
| "number (VReal x) = Some x"
| "number v = None"

definition py_less :: "val \<Rightarrow> val \<Rightarrow> error + bool" where
  "py_less a b =
     (case (number a, number b) of
        (Some x, Some y) \<Rightarrow> Inr (x < y)
      | _ \<Rightarrow> Inl TypeError)"

lemma size_kwarg: "map_of props name = Some v \<Longrightarrow> size v < Suc (size_list (size_prod (\<lambda>_. 0) size) props)"
  by (induction props) (auto split: if_splits)

lemma size_current_value_dict:
  "size_list (size_prod (\<lambda>_. 0) size) (current_value_dict ps)
     \<le> size_list (size_prod (\<lambda>_. 0) size) ps"
proof (induction ps)
  case Nil
  then show ?case by (simp add: current_value_dict_def)
next
  case (Cons a ps)
  obtain name p where a: "a = (name, p)" by (cases a)
  obtain v s where p: "p = Property v s" by (cases p)
  from Cons show ?case by (simp add: current_value_dict_def a p)
qed

function (sequential) Feature_resolve :: "feature \<Rightarrow> image \<Rightarrow> error + image \<times> feature"
and Feature_get :: "feature \<Rightarrow> image \<Rightarrow> snapshot \<Rightarrow> error + image \<times> feature"
and resolve_each :: "val list \<Rightarrow> image \<Rightarrow> error + image \<times> val list"
where
  "Feature_resolve (Feature k ps u) img =
     (case Feature_get (Feature k ps u) img (current_value_dict ps) of
        Inl e \<Rightarrow> Inl e
      | Inr (img', Feature k' ps' u') \<Rightarrow>
          Inr (Image_append img' (current_value_dict ps), Feature k' ps' False))"
| "Feature_get (Feature FeatureBranch ps u) img props =
     (if binds_positional props then Inl TypeError
      else (case kwarg props ''feature_1'' of
           VFeature feature_1 \<Rightarrow>
             (case Feature_resolve feature_1 img of
                Inl e \<Rightarrow> Inl e
              | Inr (img1, f1) \<Rightarrow>
                  (case kwarg props ''feature_2'' of
                     VFeature feature_2 \<Rightarrow>
                       (case Feature_resolve feature_2 img1 of
                          Inl e \<Rightarrow> Inl e
                        | Inr (img2, f2) \<Rightarrow>
                            Inr (img2,
                                 store (store (Feature FeatureBranch ps u)
                                   ''feature_1'' (VFeature f1)) ''feature_2'' (VFeature f2)))
                   | _ \<Rightarrow> Inl AttributeError))
         | _ \<Rightarrow> Inl AttributeError))"
| "Feature_get (Feature FeatureProbability ps u) img props =
     (if binds_positional props then Inl TypeError
      else (case py_less (kwarg props ''random_number'') (kwarg props ''probability'') of
           Inl e \<Rightarrow> Inl e
         | Inr True \<Rightarrow>
             (case kwarg props ''feature'' of
                VFeature feature \<Rightarrow>
                  (case Feature_resolve feature img of
                     Inl e \<Rightarrow> Inl e
                   | Inr (img', f') \<Rightarrow>
                       Inr (img', store (Feature FeatureProbability ps u) ''feature'' (VFeature f')))
              | _ \<Rightarrow> Inl AttributeError)
         | Inr False \<Rightarrow> Inr (img, Feature FeatureProbability ps u)))"
| "Feature_get (Feature (FeatureDuplicate t) ps u) img props =
     (if binds_positional props then Inl TypeError
      else (case kwarg props ''features'' of
           VList features \<Rightarrow>
             (case resolve_each features img of
                Inl e \<Rightarrow> Inl e
              | Inr (img', fs) \<Rightarrow>
                  Inr (img', store (Feature (FeatureDuplicate t) ps u) ''features'' (VList fs)))
         | _ \<Rightarrow> Inl TypeError))"
| "Feature_get (Feature (Load path) ps u) img props =
     (if binds_positional props then Inl TypeError
      else (case Image_add img (kwarg props ''loaded_image'') of
           Inl e \<Rightarrow> Inl e
         | Inr img' \<Rightarrow> Inr (img', Feature (Load path) ps u)))"
| "Feature_get (Feature Add ps u) img props =
     (if binds_positional props then Inl TypeError
      else (case Image_add img (kwarg props ''value'') of
           Inl e \<Rightarrow> Inl e
         | Inr img' \<Rightarrow> Inr (img', Feature Add ps u)))"
| "resolve_each [] img = Inr (img, [])"
| "resolve_each (VFeature feature # rest) img =
     (case Feature_resolve feature img of
        Inl e \<Rightarrow> Inl e
      | Inr (img', f') \<Rightarrow>
          (case resolve_each rest img' of
             Inl e \<Rightarrow> Inl e
           | Inr (img'', fs) \<Rightarrow> Inr (img'', VFeature f' # fs)))"
| "resolve_each (v # rest) img = Inl AttributeError"
  by pat_completeness auto

termination
proof (relation "measure
        (\<lambda>x. case x of
           Inl (f, img) \<Rightarrow> 2 * size f
         | Inr (Inl (f, img, props)) \<Rightarrow> Suc (2 * size_list (size_prod (\<lambda>_. 0) size) props)
         | Inr (Inr (vs, img)) \<Rightarrow> 2 * size_list size vs)", goal_cases)
  case 1
  then show ?case by simp
next
  case (2 k ps u img)
  then show ?case
    using size_current_value_dict [of ps] by simp
next
  case (3 ps u img props x4)
  then show ?case
    using size_kwarg [of props "''feature_1''" "VFeature x4"]
    by (auto simp: kwarg_def split: option.splits)
next
  case (4 ps u img props x4 x2 x1 x2a x4a)
  then show ?case
    using size_kwarg [of props "''feature_2''" "VFeature x4a"]
    by (auto simp: kwarg_def split: option.splits)
next
  case (5 ps u img props x2 x4)
  then show ?case
    using size_kwarg [of props "''feature''" "VFeature x4"]
    by (auto simp: kwarg_def split: option.splits)
next
  case (6 t ps u img props x5)
  then show ?case
    using size_kwarg [of props "''features''" "VList x5"]
    by (auto simp: kwarg_def split: option.splits)
next
  case (7 feature rest img)
  then show ?case by simp
next
  case (8 feature rest img x2 x1 x2a)
  then show ?case by simp
qed

section \<open>Constructors and operators\<close>

text \<open>
  \<^verbatim>\<open>Feature.__init__\<close> wraps each keyword argument in a \<^verbatim>\<open>Property\<close>, in the order of
  the keywords, and clears the flag. A Python call raises \<^verbatim>\<open>TypeError\<close> when a keyword
  is given twice or names a parameter that was passed positionally; \<open>keyword_clash\<close> is
  that check.
\<close>

definition Feature_init :: "kind \<Rightarrow> (string \<times> arg) list \<Rightarrow> feature" where
  "Feature_init k kwargs = Feature k (map (\<lambda>(key, value). (key, Property_init value)) kwargs) False"

definition keyword_clash :: "string list \<Rightarrow> (string \<times> arg) list \<Rightarrow> bool" where
  "keyword_clash names kwargs =
     (\<not> distinct (map fst kwargs) \<or> filter (\<lambda>key. key \<in> set names) (map fst kwargs) \<noteq> [])"

definition FeatureBranch_init :: "arg \<Rightarrow> arg \<Rightarrow> (string \<times> arg) list \<Rightarrow> error + feature" where
  "FeatureBranch_init F1 F2 kwargs =
     (if keyword_clash [''self'', ''F1'', ''F2'', ''feature_1'', ''feature_2''] kwargs
      then Inl TypeError
      else Inr (Feature_init FeatureBranch
                  ((''feature_1'', F1) # (''feature_2'', F2) # kwargs)))"

definition FeatureProbability_init ::
  "arg \<Rightarrow> arg \<Rightarrow> (string \<times> arg) list \<Rightarrow> error + feature" where
  "FeatureProbability_init feature probability kwargs =
     (if keyword_clash [''self'', ''feature'', ''probability'', ''random_number''] kwargs
      then Inl TypeError
      else Inr (Feature_init FeatureProbability
                  ((''feature'', feature) # (''probability'', probability)
                     # (''random_number'', Inr Rand) # kwargs)))"

definition FeatureDuplicate_init ::
  "feature \<Rightarrow> arg \<Rightarrow> (string \<times> arg) list \<Rightarrow> error + feature" where
  "FeatureDuplicate_init feature num_duplicates kwargs =
     (if keyword_clash [''self'', ''feature'', ''num_duplicates'', ''features''] kwargs
      then Inl TypeError
      else Inr (Feature_init (FeatureDuplicate feature)
                  ((''num_duplicates'', num_duplicates)
                     # (''features'', Inr (Replicas Owner feature)) # kwargs)))"

text \<open>
  \<^verbatim>\<open>Load.__init__\<close> passes the generator object \<^verbatim>\<open>next(self)\<close> as the keyword
  \<^verbatim>\<open>loaded_image\<close>. What the generator yields comes from the file system and from
  \<^verbatim>\<open>np.random\<close>; the sequence of its items is the parameter \<open>items\<close>.
  \<^verbatim>\<open>Load.setParent\<close> raises.
\<close>

definition Load_init :: "string \<Rightarrow> (nat \<Rightarrow> int) \<Rightarrow> feature" where
  "Load_init path items = Feature_init (Load path) [(''loaded_image'', Inr (Generator items 0))]"

definition Load_setParent :: "feature \<Rightarrow> feature \<Rightarrow> error + feature" where
  "Load_setParent self F = Inl Exception"

text \<open>The constructor of the leaf class \<open>Add\<close>: \<^verbatim>\<open>Add(value=...)\<close>.\<close>

definition Add_init :: "arg \<Rightarrow> feature" where
  "Add_init v = Feature_init Add [(''value'', v)]"

definition Feature_add :: "feature \<Rightarrow> arg \<Rightarrow> error + feature" where
  "Feature_add self other = FeatureBranch_init (Inl (VFeature self)) other []"

definition Feature_mul :: "feature \<Rightarrow> arg \<Rightarrow> error + feature" where
  "Feature_mul self other = FeatureProbability_init (Inl (VFeature self)) other []"

definition Feature_rmul :: "feature \<Rightarrow> arg \<Rightarrow> error + feature" where
  "Feature_rmul = Feature_mul"

definition Feature_pow :: "feature \<Rightarrow> arg \<Rightarrow> error + feature" where
  "Feature_pow self other = FeatureDuplicate_init self other []"

text \<open>\<^verbatim>\<open>Feature.sample\<close> resamples the properties whatever the flag, and leaves the flag.\<close>

definition Feature_sample :: "feature \<Rightarrow> world \<Rightarrow> error + feature \<times> world" where
  "Feature_sample f w =
     (case PropertyDict_update [] (properties f) w of
        Inl e \<Rightarrow> Inl e
      | Inr (ps', w') \<Rightarrow> Inr (Feature (kind f) ps' (has_updated_since_last_resolve f), w'))"

section \<open>Nodes built by the constructors, and concrete inputs\<close>

text \<open>
  \<open>Duplicate_node\<close> holds of the features that \<^verbatim>\<open>FeatureDuplicate.__init__\<close> builds, in
  any later state: the first property is \<^verbatim>\<open>num_duplicates\<close>, the second is
  \<^verbatim>\<open>features\<close> with the lambda closed over the feature itself and over the template.
  \<open>Probability_node\<close> is the same for \<^verbatim>\<open>FeatureProbability.__init__\<close> wrapping a
  feature.
\<close>

fun Duplicate_node :: "feature \<Rightarrow> bool" where
  "Duplicate_node (Feature (FeatureDuplicate t)
      ((n1, pc) # (n2, Property v (Some (Replicas Owner t'))) # rest) u) =
     (n1 = ''num_duplicates'' \<and> n2 = ''features'' \<and> t' = t)"
| "Duplicate_node f = False"

fun Probability_node :: "feature \<Rightarrow> bool" where
  "Probability_node (Feature FeatureProbability
      ((n1, Property (VFeature c) None) # (n2, pp) # (n3, Property v (Some Rand)) # rest) u) =
     (n1 = ''feature'' \<and> n2 = ''probability'' \<and> n3 = ''random_number'')"
| "Probability_node f = False"

text \<open>\<open>keeps w w'\<close>: the random source \<open>w'\<close> is \<open>w\<close> after some draws.\<close>

definition keeps :: "world \<Rightarrow> world \<Rightarrow> bool" where
  "keeps w w' = (uniform w' = uniform w \<and> drawn w \<le> drawn w')"

text \<open>Concrete inputs: a user callable, a sequence of uniform draws, the items of a file.\<close>

definition four_times :: "real \<Rightarrow> int" where
  "four_times x = \<lfloor>4 * x\<rfloor>"

fun quarter_draws :: "nat \<Rightarrow> real" where
  "quarter_draws 0 = 1 / 2"
| "quarter_draws (Suc 0) = 1 / 4"
| "quarter_draws (Suc (Suc n)) = 3 / 4"

definition tens :: "nat \<Rightarrow> int" where
  "tens n = 10 * (int n + 1)"

abbreviation add_one :: "bool \<Rightarrow> feature" where
  "add_one u \<equiv> Feature Add [(''value'', Property (VInt 1) None)] u"

abbreviation draws :: "nat \<Rightarrow> world" where
  "draws n \<equiv> \<lparr>uniform = quarter_draws, drawn = n\<rparr>"

abbreviation sampled_add :: "val \<Rightarrow> bool \<Rightarrow> feature" where
  "sampled_add v u \<equiv> Feature Add [(''value'', Property v (Some (Callable four_times)))] u"

abbreviation add_two :: "bool \<Rightarrow> feature" where
  "add_two u \<equiv> Feature Add [(''value'', Property (VInt 2) None)] u"

abbreviation sampled_duplicate :: "val \<Rightarrow> val \<Rightarrow> bound_self \<Rightarrow> bool \<Rightarrow> feature" where
  "sampled_duplicate count fs self u \<equiv>
     Feature (FeatureDuplicate (add_one False))
       [(''num_duplicates'', Property count (Some (Callable four_times))),
        (''features'', Property fs (Some (Replicas self (add_one False))))] u"

abbreviation load_tens :: "val \<Rightarrow> nat \<Rightarrow> bool \<Rightarrow> feature" where
  "load_tens v pos u \<equiv>
     Feature (Load ''data'') [(''loaded_image'', Property v (Some (Generator tens pos)))] u"

text \<open>
  Two more sequences of draws, a ProbabilisticApply node with a constant threshold, and
  a Duplicate node with the constant count 1.
\<close>

fun eighth_draws :: "nat \<Rightarrow> real" where
  "eighth_draws 0 = 1 / 2"
| "eighth_draws (Suc n) = 1 / 8"

fun stale_draws :: "nat \<Rightarrow> real" where
  "stale_draws 0 = 1 / 4"
| "stale_draws (Suc 0) = 15 / 16"
| "stale_draws (Suc (Suc n)) = 3 / 4"

abbreviation eighths :: "nat \<Rightarrow> world" where
  "eighths n \<equiv> \<lparr>uniform = eighth_draws, drawn = n\<rparr>"

abbreviation stale :: "nat \<Rightarrow> world" where
  "stale n \<equiv> \<lparr>uniform = stale_draws, drawn = n\<rparr>"

abbreviation chance :: "feature \<Rightarrow> real \<Rightarrow> val \<Rightarrow> bool \<Rightarrow> feature" where
  "chance c p rn u \<equiv>
     Feature FeatureProbability
       [(''feature'', Property (VFeature c) None),
        (''probability'', Property (VReal p) None),
        (''random_number'', Property rn (Some Rand))] u"

abbreviation two_adds :: "bool \<Rightarrow> val" where
  "two_adds u \<equiv> VList [VFeature (add_one u), VFeature (add_one u)]"

abbreviation duplicate_once :: "feature \<Rightarrow> val \<Rightarrow> bool \<Rightarrow> feature" where
  "duplicate_once t fs u \<equiv>
     Feature (FeatureDuplicate t)
       [(''num_duplicates'', Property (VInt 1) None),
        (''features'', Property fs (Some (Replicas Owner t)))] u"

text \<open>A round of generation: \<^verbatim>\<open>update()\<close> followed by \<^verbatim>\<open>resolve(image)\<close>.\<close>

definition generation_round ::
  "feature \<Rightarrow> world \<Rightarrow> image \<Rightarrow> error + image \<times> feature \<times> world" where
  "generation_round f w img =
     (case Feature_update f w of
        Inl e \<Rightarrow> Inl e
      | Inr (f1, w1) \<Rightarrow>
          (case Feature_resolve f1 img of
             Inl e \<Rightarrow> Inl e
           | Inr (out, f2) \<Rightarrow> Inr (out, f2, w1)))"

text \<open>\<open>n\<close> rounds on one feature, each on the image the round before returned.\<close>

fun generation_rounds ::
  "nat \<Rightarrow> feature \<Rightarrow> world \<Rightarrow> image \<Rightarrow> error + image \<times> feature \<times> world" where
  "generation_rounds 0 f w img = Inr (img, f, w)"
| "generation_rounds (Suc n) f w img =
     (case generation_round f w img of
        Inl e \<Rightarrow> Inl e
      | Inr (out, f', w') \<Rightarrow> generation_rounds n f' w' out)"

section \<open>Basic facts\<close>

lemma update_dirty:
  "\<not> has_updated_since_last_resolve f \<Longrightarrow>
     Feature_update f w =
       (case PropertyDict_update [] (properties f) w of
          Inl e \<Rightarrow> Inl e
        | Inr (ps, w') \<Rightarrow> Inr (Feature (kind f) ps True, w'))"
  by (cases f) (auto split: sum.splits)

lemma resolve_unfold:
  "Feature_resolve f img =
     (case Feature_get f img (current_value_dict (properties f)) of
        Inl e \<Rightarrow> Inl e
      | Inr (img', g) \<Rightarrow>
          Inr (Image_append img' (current_value_dict (properties f)),
               Feature (kind g) (properties g) False))"
  by (cases f) (auto split: sum.splits feature.splits)

text \<open>The flag of a feature does not influence what its \<^verbatim>\<open>get\<close> computes.\<close>

lemma get_flag:
  "Feature_get (Feature k ps u) img props =
     (case Feature_get (Feature k ps u') img props of
        Inl e \<Rightarrow> Inl e
      | Inr (i, g) \<Rightarrow> Inr (i, Feature (kind g) (properties g) u))"
  by (cases k) (auto simp: store_def split: sum.splits val.splits bool.splits)

section \<open>The update gate\<close>

text \<open>
  Claim C2. Calling \<^verbatim>\<open>update()\<close> twice without a \<^verbatim>\<open>resolve()\<close> in between gives the
  same property snapshot as calling it once. A first \<^verbatim>\<open>update()\<close> that returns leaves
  the flag set; on a feature whose flag was clear it is the resample pass of the
  property dictionary. The second \<^verbatim>\<open>update()\<close> returns the same feature and takes
  nothing from the random source.
\<close>

theorem update_twice_is_update_once:
  assumes "Feature_update f w = Inr (f1, w1)"
  shows "has_updated_since_last_resolve f1
       \<and> Feature_update f1 w1 = Inr (f1, w1)
       \<and> (case Feature_update f1 w1 of
            Inl e \<Rightarrow> False
          | Inr (f2, w2) \<Rightarrow>
              current_value_dict (properties f2) = current_value_dict (properties f1) \<and> w2 = w1)
       \<and> (if has_updated_since_last_resolve f then f1 = f \<and> w1 = w
          else PropertyDict_update [] (properties f) w = Inr (properties f1, w1))"
  using assms by (cases f) (auto split: if_splits sum.splits)

theorem update_twice_is_update_once_witness:
  "Feature_update (Add_init (Inr Rand)) \<lparr>uniform = (\<lambda>n. 1 / 2), drawn = 0\<rparr>
     = Inr (Feature Add [(''value'', Property (VReal (1 / 2)) (Some Rand))] True,
            \<lparr>uniform = (\<lambda>n. 1 / 2), drawn = 1\<rparr>)
   \<and> Feature_update (Feature Add [(''value'', Property (VReal (1 / 2)) (Some Rand))] True)
        \<lparr>uniform = (\<lambda>n. 1 / 2), drawn = 1\<rparr>
     = Inr (Feature Add [(''value'', Property (VReal (1 / 2)) (Some Rand))] True,
            \<lparr>uniform = (\<lambda>n. 1 / 2), drawn = 1\<rparr>)"
proof -
  have h: "Feature_update (Add_init (Inr Rand)) \<lparr>uniform = (\<lambda>n. 1 / 2), drawn = 0\<rparr>
     = Inr (Feature Add [(''value'', Property (VReal (1 / 2)) (Some Rand))] True,
            \<lparr>uniform = (\<lambda>n. 1 / 2), drawn = 1\<rparr>)"
    by (simp add: Add_init_def Feature_init_def Property_init_def np_random_rand_def)
  from update_twice_is_update_once [OF h] h show ?thesis by simp
qed

section \<open>Resolve\<close>

text \<open>
  Claim C3. A \<^verbatim>\<open>resolve(image)\<close> that returns has called \<^verbatim>\<open>get\<close> with the snapshot of
  the current property values, has appended that snapshot as the last metadata record
  of the image \<^verbatim>\<open>get\<close> returned (the pixels are those \<^verbatim>\<open>get\<close> produced), and has
  cleared the flag, so that the next \<^verbatim>\<open>update()\<close> runs the resample pass. The
  image returned does not depend on the flag the feature had: \<^verbatim>\<open>resolve\<close> without a
  preceding \<^verbatim>\<open>update()\<close> uses the values the properties currently hold.
\<close>

theorem resolve_gets_appends_and_clears:
  assumes "Feature_resolve f img = Inr (out, f')"
  shows "(\<exists>img' g.
            Feature_get f img (current_value_dict (properties f)) = Inr (img', g)
          \<and> out = Image_append img' (current_value_dict (properties f))
          \<and> pixels out = pixels img'
          \<and> metadata out = metadata img' @ [current_value_dict (properties f)]
          \<and> f' = Feature (kind g) (properties g) False)
       \<and> \<not> has_updated_since_last_resolve f'
       \<and> Feature_update f' w =
           (case PropertyDict_update [] (properties f') w of
              Inl e \<Rightarrow> Inl e
            | Inr (ps, w') \<Rightarrow> Inr (Feature (kind f') ps True, w'))
       \<and> (\<exists>f''. Feature_resolve (Feature (kind f) (properties f) b) img = Inr (out, f''))"
proof -
  obtain k ps u where f: "f = Feature k ps u" by (cases f)
  from assms obtain img' g where
    g: "Feature_get f img (current_value_dict (properties f)) = Inr (img', g)"
    and out: "out = Image_append img' (current_value_dict (properties f))"
    and f': "f' = Feature (kind g) (properties g) False"
    by (auto simp: resolve_unfold [of f] split: sum.splits)
  have flag: "\<not> has_updated_since_last_resolve f'" by (simp add: f')
  have upd: "Feature_update f' w =
           (case PropertyDict_update [] (properties f') w of
              Inl e \<Rightarrow> Inl e
            | Inr (ps, w') \<Rightarrow> Inr (Feature (kind f') ps True, w'))"
    by (rule update_dirty [OF flag])
  have "Feature_get (Feature k ps b) img (current_value_dict ps) =
          Inr (img', Feature (kind g) (properties g) b)"
    using g get_flag [of k ps b img "current_value_dict ps" u] by (simp add: f)
  then have any: "\<exists>f''. Feature_resolve (Feature (kind f) (properties f) b) img = Inr (out, f'')"
    by (simp add: f out)
  from g out f' flag upd any show ?thesis
    by (simp add: Image_append_def)
qed

theorem resolve_gets_appends_and_clears_witness:
  "Feature_resolve (Add_init (Inl (VInt 1))) \<lparr>pixels = 0, metadata = []\<rparr>
     = Inr (\<lparr>pixels = 1, metadata = [[(''value'', VInt 1)]]\<rparr>,
            Feature Add [(''value'', Property (VInt 1) None)] False)
   \<and> (\<exists>f''. Feature_resolve
               (Feature (kind (Add_init (Inl (VInt 1)))) (properties (Add_init (Inl (VInt 1)))) True)
               \<lparr>pixels = 0, metadata = []\<rparr>
             = Inr (\<lparr>pixels = 1, metadata = [[(''value'', VInt 1)]]\<rparr>, f''))"
proof -
  have h: "Feature_resolve (Add_init (Inl (VInt 1))) \<lparr>pixels = 0, metadata = []\<rparr>
     = Inr (\<lparr>pixels = 1, metadata = [[(''value'', VInt 1)]]\<rparr>,
            Feature Add [(''value'', Property (VInt 1) None)] False)"
    by (simp add: Add_init_def Feature_init_def Property_init_def current_value_dict_def
        kwarg_def binds_positional_def Image_add_def Image_append_def)
  from resolve_gets_appends_and_clears [OF h, of undefined True] h show ?thesis by blast
qed

section \<open>The operators\<close>

text \<open>
  Claim C10. \<^verbatim>\<open>F * p\<close> and \<^verbatim>\<open>p * F\<close> construct the same feature: \<^verbatim>\<open>__rmul__\<close> is
  \<^verbatim>\<open>__mul__\<close>, and both return \<^verbatim>\<open>FeatureProbability(F, p)\<close>, whose properties are the
  wrapped feature \<open>F\<close>, the threshold \<open>p\<close> and the random number drawn by
  \<^verbatim>\<open>np.random.rand\<close>.
\<close>

theorem mul_commutes:
  "Feature_rmul F p = Feature_mul F p
   \<and> Feature_mul F p = FeatureProbability_init (Inl (VFeature F)) p []
   \<and> Feature_mul F p =
       Inr (Feature FeatureProbability
              [(''feature'', Property (VFeature F) None),
               (''probability'', Property_init p),
               (''random_number'', Property VNone (Some Rand))] False)"
  by (simp add: Feature_rmul_def Feature_mul_def FeatureProbability_init_def keyword_clash_def
      Feature_init_def Property_init_def)

theorem mul_commutes_witness:
  "Feature_rmul (Add_init (Inl (VInt 1))) (Inl (VReal (1 / 2)))
     = Feature_mul (Add_init (Inl (VInt 1))) (Inl (VReal (1 / 2)))
   \<and> Feature_mul (Add_init (Inl (VInt 1))) (Inl (VReal (1 / 2))) =
       Inr (Feature FeatureProbability
              [(''feature'', Property (VFeature (Add_init (Inl (VInt 1)))) None),
               (''probability'', Property (VReal (1 / 2)) None),
               (''random_number'', Property VNone (Some Rand))] False)"
  using mul_commutes [of "Add_init (Inl (VInt 1))" "Inl (VReal (1 / 2))"]
  by (auto simp: Property_init_def)

section \<open>The resample pass\<close>

text \<open>A pass keeps the entries it has resampled, in their order, and the names of all.\<close>

lemma PropertyDict_update_prefix:
  "PropertyDict_update done todo w = Inr (res, w')
     \<Longrightarrow> \<exists>todo'. res = done @ todo' \<and> map fst todo' = map fst todo"
proof (induction todo arbitrary: "done" w)
  case Nil
  then show ?case by simp
next
  case (Cons a todo)
  obtain name p where a: "a = (name, p)" by (cases a)
  from Cons.prems obtain p' w1 where
    "PropertyDict_update (done @ [(name, p')]) todo w1 = Inr (res, w')"
    by (auto simp: a split: sum.splits)
  from Cons.IH [OF this] show ?case by (auto simp: a)
qed

lemma replicas_length: "replicas s n w = Inr (fs, w') \<Longrightarrow> length fs = n"
proof (induction n arbitrary: fs w)
  case 0
  then show ?case by simp
next
  case (Suc n)
  then show ?case by (cases s) (auto split: sum.splits)
qed

lemma Duplicate_node_shape:
  assumes "Duplicate_node d"
  obtains t pc v rest where
    "d = Feature (FeatureDuplicate t)
           ((''num_duplicates'', pc) # (''features'', Property v (Some (Replicas Owner t))) # rest)
           (has_updated_since_last_resolve d)"
  using assms by (auto elim!: Duplicate_node.elims(2))

lemma Callable_fresh:
  "Property_update bag (Property v (Some (Callable g))) w = Inr (pc', w1)
     \<Longrightarrow> current_value pc' = VInt (g (uniform w (drawn w)))"
  by (auto simp: np_random_rand_def)

lemma duplicate_pass:
  assumes d: "d = Feature (FeatureDuplicate t)
           ((''num_duplicates'', pc) # (''features'', Property v (Some (Replicas Owner t))) # rest) False"
    and upd: "Feature_update d w = Inr (d', w')"
  shows "\<exists>pc' w1 n fs w2 rest'.
           Property_update (properties d) pc w = Inr (pc', w1)
         \<and> current_value pc' = VInt n
         \<and> replicas (Replicas Owner t) (nat n) w1 = Inr (fs, w2)
         \<and> d' = Feature (FeatureDuplicate t)
             ((''num_duplicates'', pc')
                # (''features'', Property (VList fs) (Some (Replicas Owner t))) # rest') True"
proof -
  let ?pf = "Property v (Some (Replicas Owner t))"
  let ?bag = "(''num_duplicates'', pc) # (''features'', ?pf) # rest"
  from upd obtain ps' where
    all: "PropertyDict_update [] ?bag w = Inr (ps', w')"
    and d': "d' = Feature (FeatureDuplicate t) ps' True"
    by (auto simp: d split: sum.splits)
  from all obtain pc' w1 where
    one: "Property_update ?bag pc w = Inr (pc', w1)"
    and all1: "PropertyDict_update [(''num_duplicates'', pc')] ((''features'', ?pf) # rest) w1
                 = Inr (ps', w')"
    by (auto split: sum.splits)
  from all1 obtain pf' w2 where
    two: "Property_update ((''num_duplicates'', pc') # (''features'', ?pf) # rest) ?pf w1
            = Inr (pf', w2)"
    and all2: "PropertyDict_update [(''num_duplicates'', pc'), (''features'', pf')] rest w2
                 = Inr (ps', w')"
    by (auto split: sum.splits)
  from two obtain n fs where
    n: "current_value pc' = VInt n"
    and fs: "replicas (Replicas Owner t) (nat n) w1 = Inr (fs, w2)"
    and pf': "pf' = Property (VList fs) (Some (Replicas Owner t))"
    by (auto simp: read_count_def split: sum.splits val.splits)
  from PropertyDict_update_prefix [OF all2] obtain rest' where
    "ps' = [(''num_duplicates'', pc'), (''features'', pf')] @ rest'" by blast
  with one n fs pf' d' show ?thesis by (simp add: d)
qed

lemma duplicate_init_shape:
  assumes "FeatureDuplicate_init t cnt kwargs = Inr d0"
  shows "Duplicate_node d0 \<and> \<not> has_updated_since_last_resolve d0
       \<and> map fst (properties d0) = ''num_duplicates'' # ''features'' # map fst kwargs"
proof -
  from assms have d0: "d0 = Feature_init (FeatureDuplicate t)
      ((''num_duplicates'', cnt) # (''features'', Inr (Replicas Owner t)) # kwargs)"
    by (auto simp: FeatureDuplicate_init_def split: if_splits)
  have "map (fst \<circ> (\<lambda>(key, value). (key, Property_init value))) kwargs = map fst kwargs"
    by (rule map_cong) auto
  then show ?thesis
    by (simp add: d0 Feature_init_def Property_init_def)
qed

text \<open>
  \<^verbatim>\<open>FeatureDuplicate.__init__\<close> declares \<^verbatim>\<open>num_duplicates\<close> first and \<^verbatim>\<open>features\<close>
  second. In a node that the constructor built, the resample pass of \<^verbatim>\<open>update()\<close>
  resamples the count first, the lambda of \<^verbatim>\<open>features\<close> reads the value that this pass
  has just stored (for a sampled count, the value computed from the draw taken in this
  pass), and the list stored as \<^verbatim>\<open>features\<close> has as many elements as that count (none
  for a negative count, which \<^verbatim>\<open>range\<close> treats as empty).
\<close>

lemma constructed_duplicate_count_is_fresh:
  "(FeatureDuplicate_init t cnt kwargs = Inr d0 \<longrightarrow>
      Duplicate_node d0 \<and> \<not> has_updated_since_last_resolve d0
    \<and> map fst (properties d0) = ''num_duplicates'' # ''features'' # map fst kwargs)
 \<and> (Duplicate_node d \<and> \<not> has_updated_since_last_resolve d
      \<and> Feature_update d w = Inr (d', w') \<longrightarrow>
      (\<exists>pc pc' w1 n fs.
          hd (properties d) = (''num_duplicates'', pc)
        \<and> Property_update (properties d) pc w = Inr (pc', w1)
        \<and> current_value pc' = VInt n
        \<and> (\<forall>g. sampling_rule pc = Some (Callable g) \<longrightarrow> n = g (uniform w (drawn w)))
        \<and> kwarg (current_value_dict (properties d')) ''num_duplicates'' = VInt n
        \<and> kwarg (current_value_dict (properties d')) ''features'' = VList fs
        \<and> length fs = nat n \<and> (0 \<le> n \<longrightarrow> int (length fs) = n)
        \<and> Duplicate_node d'))"
proof (intro conjI impI)
  assume "FeatureDuplicate_init t cnt kwargs = Inr d0"
  from duplicate_init_shape [OF this]
  show "Duplicate_node d0" and "\<not> has_updated_since_last_resolve d0"
    and "map fst (properties d0) = ''num_duplicates'' # ''features'' # map fst kwargs"
    by simp_all
next
  assume a: "Duplicate_node d \<and> \<not> has_updated_since_last_resolve d
      \<and> Feature_update d w = Inr (d', w')"
  then obtain t pc v rest where
    d: "d = Feature (FeatureDuplicate t)
           ((''num_duplicates'', pc) # (''features'', Property v (Some (Replicas Owner t))) # rest) False"
    by (auto elim: Duplicate_node_shape)
  from a have upd: "Feature_update d w = Inr (d', w')" by simp
  from duplicate_pass [OF d upd] obtain pc' w1 n fs w2 rest' where
    one: "Property_update (properties d) pc w = Inr (pc', w1)"
    and n: "current_value pc' = VInt n"
    and fs: "replicas (Replicas Owner t) (nat n) w1 = Inr (fs, w2)"
    and d': "d' = Feature (FeatureDuplicate t)
             ((''num_duplicates'', pc')
                # (''features'', Property (VList fs) (Some (Replicas Owner t))) # rest') True"
    by blast
  have len: "length fs = nat n" by (rule replicas_length [OF fs])
  have fresh: "\<forall>g. sampling_rule pc = Some (Callable g) \<longrightarrow> n = g (uniform w (drawn w))"
  proof (intro allI impI)
    fix g assume "sampling_rule pc = Some (Callable g)"
    then obtain v0 where "pc = Property v0 (Some (Callable g))" by (cases pc) auto
    with one n show "n = g (uniform w (drawn w))"
      using Callable_fresh [of "properties d" v0 g w pc' w1] by simp
  qed
  have hd: "hd (properties d) = (''num_duplicates'', pc)" by (simp add: d)
  have k1: "kwarg (current_value_dict (properties d')) ''num_duplicates'' = VInt n"
    by (cases pc') (use n in \<open>simp add: d' current_value_dict_def kwarg_def binds_positional_def\<close>)
  have k2: "kwarg (current_value_dict (properties d')) ''features'' = VList fs"
    by (cases pc') (simp add: d' current_value_dict_def kwarg_def binds_positional_def)
  have node: "Duplicate_node d'" by (simp add: d')
  from hd one n fresh k1 k2 len node
  show "\<exists>pc pc' w1 n fs.
          hd (properties d) = (''num_duplicates'', pc)
        \<and> Property_update (properties d) pc w = Inr (pc', w1)
        \<and> current_value pc' = VInt n
        \<and> (\<forall>g. sampling_rule pc = Some (Callable g) \<longrightarrow> n = g (uniform w (drawn w)))
        \<and> kwarg (current_value_dict (properties d')) ''num_duplicates'' = VInt n
        \<and> kwarg (current_value_dict (properties d')) ''features'' = VList fs
        \<and> length fs = nat n \<and> (0 \<le> n \<longrightarrow> int (length fs) = n)
        \<and> Duplicate_node d'"
    by (intro exI [of _ pc] exI [of _ pc'] exI [of _ w1] exI [of _ n] exI [of _ fs]) simp
qed

text \<open>
  Claim C1. The claim says that in every Duplicate node the list stored as \<^verbatim>\<open>features\<close>
  has the length of the count resampled in the same pass. The lambda reads the count
  through the \<^verbatim>\<open>self\<close> it closed over, and \<^verbatim>\<open>copy.deepcopy\<close> copies a function by
  reference: in a replica of a Duplicate node, \<^verbatim>\<open>self\<close> is still the node that was
  copied. Here \<^verbatim>\<open>Add(value=1) ** sampler\<close> goes through one round, which leaves its
  count at 2, and is then the template of \<^verbatim>\<open>inner ** 1\<close>. The resample pass of the
  outer node stores one replica: a Duplicate node whose own pass has resampled its
  count to 1 and has stored two features, the count of the template.
\<close>

theorem replica_of_duplicate_reads_count_of_original:
  "Feature_pow (add_one False) (Inr (Callable four_times))
     = Inr (sampled_duplicate VNone VNone Owner False)
 \<and> generation_round (sampled_duplicate VNone VNone Owner False) (draws 0)
       \<lparr>pixels = 0, metadata = []\<rparr>
     = Inr (\<lparr>pixels = 2,
             metadata = [[(''value'', VInt 1)], [(''value'', VInt 1)],
                         [(''num_duplicates'', VInt 2), (''features'', two_adds True)]]\<rparr>,
            sampled_duplicate (VInt 2) (two_adds False) Owner False,
            draws 1)
 \<and> Feature_pow (sampled_duplicate (VInt 2) (two_adds False) Owner False) (Inl (VInt 1))
     = Inr (duplicate_once (sampled_duplicate (VInt 2) (two_adds False) Owner False) VNone False)
 \<and> Feature_update
       (duplicate_once (sampled_duplicate (VInt 2) (two_adds False) Owner False) VNone False)
       (draws 1)
     = Inr (duplicate_once (sampled_duplicate (VInt 2) (two_adds False) Owner False)
              (VList [VFeature
                        (sampled_duplicate (VInt 1) (two_adds True) (Original (Inr 2)) True)])
              True,
            draws 2)
 \<and> kwarg (current_value_dict
            (properties (sampled_duplicate (VInt 1) (two_adds True) (Original (Inr 2)) True)))
       ''num_duplicates'' = VInt 1
 \<and> kwarg (current_value_dict
            (properties (sampled_duplicate (VInt 1) (two_adds True) (Original (Inr 2)) True)))
       ''features'' = two_adds True
 \<and> length [VFeature (add_one True), VFeature (add_one True)] = 2
 \<and> four_times (quarter_draws 1) = 1"
  by (simp add: Feature_pow_def FeatureDuplicate_init_def keyword_clash_def Feature_init_def
      Property_init_def generation_round_def np_random_rand_def four_times_def deepcopy_def
      read_count_def current_value_dict_def kwarg_def binds_positional_def Image_add_def
      Image_append_def store_def numeral_2_eq_2)

section \<open>Duplicate with count zero\<close>

text \<open>
  When the resample pass of a node that the constructor built resolves the count to 0,
  the list stored as \<^verbatim>\<open>features\<close> is empty and \<^verbatim>\<open>get\<close> returns the input image
  unchanged, and leaves the node as it is.
\<close>

lemma constructed_duplicate_zero_is_identity:
  assumes "Duplicate_node d" and "\<not> has_updated_since_last_resolve d"
    and "Feature_update d w = Inr (d', w')"
    and "kwarg (current_value_dict (properties d')) ''num_duplicates'' = VInt 0"
  shows "kwarg (current_value_dict (properties d')) ''features'' = VList []
       \<and> Feature_get d' img (current_value_dict (properties d')) =
           (if binds_positional (current_value_dict (properties d')) then Inl TypeError
            else Inr (img, d'))"
proof -
  from assms(1,2) obtain t pc v rest where
    d: "d = Feature (FeatureDuplicate t)
           ((''num_duplicates'', pc) # (''features'', Property v (Some (Replicas Owner t))) # rest) False"
    by (auto elim: Duplicate_node_shape)
  from duplicate_pass [OF d assms(3)] obtain pc' w1 n fs w2 rest' where
    n: "current_value pc' = VInt n"
    and fs: "replicas (Replicas Owner t) (nat n) w1 = Inr (fs, w2)"
    and d': "d' = Feature (FeatureDuplicate t)
             ((''num_duplicates'', pc')
                # (''features'', Property (VList fs) (Some (Replicas Owner t))) # rest') True"
    by blast
  obtain vc sc where pc': "pc' = Property vc sc" by (cases pc')
  from assms(4) n have "n = 0"
    by (simp add: d' pc' current_value_dict_def kwarg_def)
  with replicas_length [OF fs] have empty: "fs = []" by simp
  have k: "kwarg (current_value_dict (properties d')) ''features'' = VList []"
    by (simp add: d' pc' empty current_value_dict_def kwarg_def)
  have s: "store d' ''features'' (VList []) = d'"
    by (simp add: d' pc' empty store_def)
  have g: "Feature_get d' img (current_value_dict (properties d')) =
           (if binds_positional (current_value_dict (properties d')) then Inl TypeError
            else Inr (img, d'))"
  proof (cases "binds_positional (current_value_dict (properties d'))")
    case True
    then show ?thesis by (simp add: d')
  next
    case False
    have "Feature_get (Feature (FeatureDuplicate t) (properties d') True) img
            (current_value_dict (properties d'))
          = Inr (img, store (Feature (FeatureDuplicate t) (properties d') True)
                        ''features'' (VList []))"
      using False k by simp
    with s False show ?thesis by (simp add: d')
  qed
  from k g show ?thesis by simp
qed

text \<open>
  Claim C6. The claim says that a Duplicate node whose count resolved to 0 holds an
  empty list of replicas and returns the input artifact unchanged. Here the Duplicate
  node \<^verbatim>\<open>Add(value=1) ** sampler\<close> has gone through one round, which left its count at
  2, and is the template of \<^verbatim>\<open>inner ** 1\<close>. The replica that the outer node stores is a
  Duplicate node whose own pass has resampled its count to 0 (from the draw 1/8). Its
  lambda has read the count of the template: the list it holds has two features, and
  its \<^verbatim>\<open>get\<close> turns the artifact 5 into 7.
\<close>

theorem replica_with_count_zero_adds_twice:
  "generation_round (sampled_duplicate VNone VNone Owner False) (eighths 0)
       \<lparr>pixels = 0, metadata = []\<rparr>
     = Inr (\<lparr>pixels = 2,
             metadata = [[(''value'', VInt 1)], [(''value'', VInt 1)],
                         [(''num_duplicates'', VInt 2), (''features'', two_adds True)]]\<rparr>,
            sampled_duplicate (VInt 2) (two_adds False) Owner False,
            eighths 1)
 \<and> Feature_pow (sampled_duplicate (VInt 2) (two_adds False) Owner False) (Inl (VInt 1))
     = Inr (duplicate_once (sampled_duplicate (VInt 2) (two_adds False) Owner False) VNone False)
 \<and> Feature_update
       (duplicate_once (sampled_duplicate (VInt 2) (two_adds False) Owner False) VNone False)
       (eighths 1)
     = Inr (duplicate_once (sampled_duplicate (VInt 2) (two_adds False) Owner False)
              (VList [VFeature
                        (sampled_duplicate (VInt 0) (two_adds True) (Original (Inr 2)) True)])
              True,
            eighths 2)
 \<and> kwarg (current_value_dict
            (properties (sampled_duplicate (VInt 0) (two_adds True) (Original (Inr 2)) True)))
       ''num_duplicates'' = VInt 0
 \<and> kwarg (current_value_dict
            (properties (sampled_duplicate (VInt 0) (two_adds True) (Original (Inr 2)) True)))
       ''features'' = two_adds True
 \<and> Feature_get (sampled_duplicate (VInt 0) (two_adds True) (Original (Inr 2)) True)
       \<lparr>pixels = 5, metadata = []\<rparr>
       (current_value_dict
          (properties (sampled_duplicate (VInt 0) (two_adds True) (Original (Inr 2)) True)))
     = Inr (\<lparr>pixels = 7, metadata = [[(''value'', VInt 1)], [(''value'', VInt 1)]]\<rparr>,
            sampled_duplicate (VInt 0) (two_adds False) (Original (Inr 2)) True)
 \<and> four_times (eighth_draws 1) = 0"
  by (simp add: Feature_pow_def FeatureDuplicate_init_def keyword_clash_def Feature_init_def
      Property_init_def generation_round_def np_random_rand_def four_times_def deepcopy_def
      read_count_def current_value_dict_def kwarg_def binds_positional_def Image_add_def
      Image_append_def store_def numeral_2_eq_2)

section \<open>The random source\<close>

text \<open>An update only ever takes draws from the random source.\<close>

lemma keeps_refl: "keeps w w" by (simp add: keeps_def)

lemma keeps_trans: "keeps a b \<Longrightarrow> keeps b c \<Longrightarrow> keeps a c" by (auto simp: keeps_def)

lemma update_world:
  "\<forall>f' w'. Feature_update f w = Inr (f', w') \<longrightarrow> keeps w w'"
  "\<forall>res w'. PropertyDict_update done todo w = Inr (res, w') \<longrightarrow> keeps w w'"
  "\<forall>p' w'. Property_update bag p w = Inr (p', w') \<longrightarrow> keeps w w'"
  "\<forall>fs w'. replicas s n w = Inr (fs, w') \<longrightarrow> keeps w w'"
proof (induction f w and "done" todo w and bag p w and s n w
       rule: Feature_update_PropertyDict_update_Property_update_replicas.induct)
  case (1 k ps u w)
  show ?case
  proof (cases u)
    case True
    then show ?thesis by (simp add: keeps_refl)
  next
    case False
    with 1 show ?thesis by (auto split: sum.splits)
  qed
next
  case (3 "done" name p todo w)
  show ?case
  proof (intro allI impI)
    fix res w'
    assume "PropertyDict_update done ((name, p) # todo) w = Inr (res, w')"
    then obtain p1 w1 where
      a: "Property_update (done @ (name, p) # todo) p w = Inr (p1, w1)"
      and b: "PropertyDict_update (done @ [(name, p1)]) todo w1 = Inr (res, w')"
      by (auto split: sum.splits)
    from "3.IH"(1) a have "keeps w w1" by blast
    moreover from "3.IH"(2) [OF a refl] b have "keeps w1 w'" by blast
    ultimately show "keeps w w'" by (rule keeps_trans)
  qed
next
  case (4 self_properties c w)
  then show ?case by (auto split: sum.splits)
next
  case (9 self_properties v self t w)
  show ?case
  proof (intro allI impI)
    fix p' w'
    assume "Property_update self_properties (Property v (Some (Replicas self t))) w
              = Inr (p', w')"
    then obtain m fs where
      a: "(case self of Owner \<Rightarrow> read_count self_properties | Original r \<Rightarrow> r) = Inr m"
      and c: "replicas (Replicas self t) (nat m) w = Inr (fs, w')"
      by (auto split: sum.splits)
    from "9.IH" [OF a] c show "keeps w w'" by blast
  qed
next
  case (11 self t n w)
  show ?case
  proof (intro allI impI)
    fix fs w'
    assume "replicas (Replicas self t) (Suc n) w = Inr (fs, w')"
    then obtain c c1 w1 fs1 where
      a: "deepcopy t = Inr c"
      and b: "Feature_update c w = Inr (c1, w1)"
      and c: "replicas (Replicas self t) n w1 = Inr (fs1, w')"
      by (auto split: sum.splits)
    from "11.IH"(1) [OF a] b have "keeps w w1" by blast
    moreover from "11.IH"(2) [OF a b refl] c have "keeps w1 w'" by blast
    ultimately show "keeps w w'" by (rule keeps_trans)
  qed
qed (auto simp: keeps_def np_random_rand_def)

section \<open>FeatureProbability\<close>

lemma Probability_node_shape:
  assumes "Probability_node f"
  obtains c pp v rest where
    "f = Feature FeatureProbability
           ((''feature'', Property (VFeature c) None) # (''probability'', pp)
              # (''random_number'', Property v (Some Rand)) # rest)
           (has_updated_since_last_resolve f)"
  using assms by (auto elim!: Probability_node.elims(2))

lemma probability_pass:
  assumes f: "f = Feature FeatureProbability
           ((''feature'', Property (VFeature c) None) # (''probability'', pp)
              # (''random_number'', Property v (Some Rand)) # rest) False"
    and upd: "Feature_update f w = Inr (f', w')"
  shows "\<exists>c' pp' k rest'.
           drawn w \<le> k \<and> k < drawn w'
         \<and> f' = Feature FeatureProbability
             ((''feature'', Property (VFeature c') None) # (''probability'', pp')
                # (''random_number'', Property (VReal (uniform w k)) (Some Rand)) # rest') True"
proof -
  let ?pr = "Property v (Some Rand)"
  let ?bag = "(''feature'', Property (VFeature c) None) # (''probability'', pp)
              # (''random_number'', ?pr) # rest"
  from upd obtain ps' where
    all: "PropertyDict_update [] ?bag w = Inr (ps', w')"
    and f': "f' = Feature FeatureProbability ps' True"
    by (auto simp: f split: sum.splits)
  from all obtain c' w1 where
    one: "Feature_update c w = Inr (c', w1)"
    and all1: "PropertyDict_update [(''feature'', Property (VFeature c') None)]
                 ((''probability'', pp) # (''random_number'', ?pr) # rest) w1 = Inr (ps', w')"
    by (auto split: sum.splits)
  from all1 obtain pp' w2 where
    two: "Property_update
            ((''feature'', Property (VFeature c') None) # (''probability'', pp)
               # (''random_number'', ?pr) # rest) pp w1 = Inr (pp', w2)"
    and all2: "PropertyDict_update
                 [(''feature'', Property (VFeature c') None), (''probability'', pp')]
                 ((''random_number'', ?pr) # rest) w2 = Inr (ps', w')"
    by (auto split: sum.splits)
  let ?w3 = "w2\<lparr>drawn := Suc (drawn w2)\<rparr>"
  from all2 have all3: "PropertyDict_update
                 [(''feature'', Property (VFeature c') None), (''probability'', pp'),
                  (''random_number'', Property (VReal (uniform w2 (drawn w2))) (Some Rand))]
                 rest ?w3 = Inr (ps', w')"
    by (simp add: np_random_rand_def)
  from update_world(1) one have k1: "keeps w w1" by blast
  from update_world(3) two have k2: "keeps w1 w2" by blast
  from update_world(2) all3 have k3: "keeps ?w3 w'" by blast
  from k1 k2 have u: "uniform w2 = uniform w" and lo: "drawn w \<le> drawn w2"
    by (auto simp: keeps_def)
  from k3 have hi: "drawn w2 < drawn w'" by (auto simp: keeps_def)
  from PropertyDict_update_prefix [OF all3] obtain rest' where
    "ps' = [(''feature'', Property (VFeature c') None), (''probability'', pp'),
            (''random_number'', Property (VReal (uniform w2 (drawn w2))) (Some Rand))] @ rest'"
    by blast
  with f' u lo hi show ?thesis by auto
qed

lemma get_probability:
  assumes "kind f = FeatureProbability"
  shows "Feature_get f img props =
           (if binds_positional props then Inl TypeError
            else case py_less (kwarg props ''random_number'') (kwarg props ''probability'') of
              Inl e \<Rightarrow> Inl e
            | Inr b \<Rightarrow>
                if b
                then (case kwarg props ''feature'' of
                        VFeature c \<Rightarrow>
                          (case Feature_resolve c img of
                             Inl e \<Rightarrow> Inl e
                           | Inr (img', c') \<Rightarrow> Inr (img', store f ''feature'' (VFeature c')))
                      | _ \<Rightarrow> Inl AttributeError)
                else Inr (img, f))"
proof -
  obtain k ps u where f: "f = Feature k ps u" by (cases f)
  with assms have k: "k = FeatureProbability" by simp
  show ?thesis
  proof (cases "binds_positional props")
    case True
    then show ?thesis by (simp add: f k)
  next
    case False
    then show ?thesis
      unfolding f k by (auto split: sum.splits bool.splits val.splits)
  qed
qed

lemma probability_get_decides:
  assumes f: "f = Feature FeatureProbability
           ((''feature'', Property (VFeature c) None) # (''probability'', Property vp sp)
              # (''random_number'', Property (VReal r) (Some Rand)) # rest) u"
    and p: "number vp = Some p"
  shows "Feature_get f img (current_value_dict (properties f)) =
           (if binds_positional (current_value_dict (properties f)) then Inl TypeError
            else if r < p
              then (case Feature_resolve c img of
                      Inl e \<Rightarrow> Inl e
                    | Inr (img', c') \<Rightarrow> Inr (img', store f ''feature'' (VFeature c')))
              else Inr (img, f))"
proof -
  let ?props = "current_value_dict (properties f)"
  have kind: "kind f = FeatureProbability" by (simp add: f)
  have kf: "kwarg ?props ''feature'' = VFeature c"
    by (simp add: f current_value_dict_def kwarg_def)
  have less: "py_less (kwarg ?props ''random_number'') (kwarg ?props ''probability'') = Inr (r < p)"
    by (simp add: f p current_value_dict_def kwarg_def py_less_def)
  show ?thesis
  proof (cases "binds_positional ?props")
    case True
    then show ?thesis by (simp add: get_probability [OF kind])
  next
    case False
    then show ?thesis
      by (cases "r < p") (simp_all add: get_probability [OF kind, of img ?props] less kf)
  qed
qed

lemma stale_draws_unit: "0 \<le> stale_draws j \<and> stale_draws j < 1"
  by (induction j rule: stale_draws.induct) simp_all

text \<open>
  Claim C5, as stated, fails: the number that decides is not always a fresh draw.
  \<^verbatim>\<open>update()\<close> resamples a node only when its flag is clear, and only \<^verbatim>\<open>resolve\<close>
  clears the flag. In \<^verbatim>\<open>(Add(value=1) * 0.5) * 0.875\<close>, round 1 draws 1/4 for the inner
  node and 15/16 for the outer node, which skips the inner node: the inner node is not
  resolved and its flag stays set. The \<^verbatim>\<open>update()\<close> of round 2 takes one draw, 3/4, for
  the outer node, and leaves the inner node as it is. The outer node applies the inner
  node, and the inner node applies \<^verbatim>\<open>Add\<close> on the 1/4 it drew in round 1, although the
  only draw of round 2 is not below its threshold 1/2.
\<close>

theorem skipped_node_decides_on_earlier_draw:
  "Feature_mul (add_one False) (Inl (VReal (1 / 2))) = Inr (chance (add_one False) (1 / 2) VNone False)
 \<and> Feature_mul (chance (add_one False) (1 / 2) VNone False) (Inl (VReal (7 / 8)))
     = Inr (chance (chance (add_one False) (1 / 2) VNone False) (7 / 8) VNone False)
 \<and> generation_round (chance (chance (add_one False) (1 / 2) VNone False) (7 / 8) VNone False)
       (stale 0) \<lparr>pixels = 0, metadata = []\<rparr>
     = Inr (\<lparr>pixels = 0,
             metadata = [[(''feature'', VFeature (chance (add_one True) (1 / 2) (VReal (1 / 4)) True)),
                          (''probability'', VReal (7 / 8)),
                          (''random_number'', VReal (15 / 16))]]\<rparr>,
            chance (chance (add_one True) (1 / 2) (VReal (1 / 4)) True) (7 / 8) (VReal (15 / 16)) False,
            stale 2)
 \<and> Feature_update
       (chance (chance (add_one True) (1 / 2) (VReal (1 / 4)) True) (7 / 8) (VReal (15 / 16)) False)
       (stale 2)
     = Inr (chance (chance (add_one True) (1 / 2) (VReal (1 / 4)) True) (7 / 8) (VReal (3 / 4)) True,
            stale 3)
 \<and> Feature_resolve
       (chance (chance (add_one True) (1 / 2) (VReal (1 / 4)) True) (7 / 8) (VReal (3 / 4)) True)
       \<lparr>pixels = 0, metadata = []\<rparr>
     = Inr (\<lparr>pixels = 1,
             metadata = [[(''value'', VInt 1)],
                         [(''feature'', VFeature (add_one True)),
                          (''probability'', VReal (1 / 2)),
                          (''random_number'', VReal (1 / 4))],
                         [(''feature'', VFeature (chance (add_one True) (1 / 2) (VReal (1 / 4)) True)),
                          (''probability'', VReal (7 / 8)),
                          (''random_number'', VReal (3 / 4))]]\<rparr>,
            chance (chance (add_one False) (1 / 2) (VReal (1 / 4)) False) (7 / 8) (VReal (3 / 4)) False)
 \<and> stale_draws 0 = 1 / 4 \<and> stale_draws 2 = 3 / 4 \<and> \<not> stale_draws 2 < 1 / 2"
  by (simp add: Feature_mul_def FeatureProbability_init_def keyword_clash_def Feature_init_def
      Property_init_def generation_round_def np_random_rand_def current_value_dict_def kwarg_def
      binds_positional_def py_less_def Image_add_def Image_append_def store_def numeral_2_eq_2
      numeral_3_eq_3)

text \<open>
  Claim C5, amended. After \<^verbatim>\<open>update()\<close>, the property \<^verbatim>\<open>random_number\<close> of a
  ProbabilisticApply node holds a draw of \<^verbatim>\<open>np.random.rand\<close>: a draw taken during this
  \<^verbatim>\<open>update()\<close> when the flag of the node was clear, and the earlier draw that the node
  already held when its flag was set, in which case \<^verbatim>\<open>update()\<close> changes nothing.
  \<^verbatim>\<open>get\<close> raises \<^verbatim>\<open>TypeError\<close> when a property of the node is named \<^verbatim>\<open>image\<close> or
  \<^verbatim>\<open>self\<close>. Otherwise it returns what the wrapped feature's \<^verbatim>\<open>resolve\<close> returns when
  the held draw is strictly below the threshold, and the input image unchanged when it
  is not. With draws in [0, 1), a threshold 0 never applies the wrapped feature and a
  threshold 1 always applies it.
\<close>

theorem probability_decides_on_held_draw:
  assumes node: "Probability_node f"
    and held: "has_updated_since_last_resolve f \<longrightarrow>
                 (\<exists>j<drawn w. kwarg (current_value_dict (properties f)) ''random_number''
                                = VReal (uniform w j))"
    and upd: "Feature_update f w = Inr (f', w')"
    and thr: "number (kwarg (current_value_dict (properties f')) ''probability'') = Some p"
  shows "\<exists>c k.
           kwarg (current_value_dict (properties f')) ''feature'' = VFeature c
         \<and> kwarg (current_value_dict (properties f')) ''random_number'' = VReal (uniform w k)
         \<and> k < drawn w'
         \<and> (if has_updated_since_last_resolve f then f' = f \<and> w' = w else drawn w \<le> k)
         \<and> Feature_get f' img (current_value_dict (properties f')) =
             (if binds_positional (current_value_dict (properties f')) then Inl TypeError
              else if uniform w k < p
                then (case Feature_resolve c img of
                        Inl e \<Rightarrow> Inl e
                      | Inr (img', c') \<Rightarrow> Inr (img', store f' ''feature'' (VFeature c')))
                else Inr (img, f'))
         \<and> ((\<forall>j. 0 \<le> uniform w j \<and> uniform w j < 1)
              \<and> \<not> binds_positional (current_value_dict (properties f')) \<longrightarrow>
              (p = 0 \<longrightarrow> Feature_get f' img (current_value_dict (properties f')) = Inr (img, f'))
            \<and> (p = 1 \<longrightarrow> Feature_get f' img (current_value_dict (properties f')) =
                  (case Feature_resolve c img of
                     Inl e \<Rightarrow> Inl e
                   | Inr (img', c') \<Rightarrow> Inr (img', store f' ''feature'' (VFeature c')))))"
proof -
  let ?props = "current_value_dict (properties f')"
  have shape: "\<exists>c pp' k rest' u'.
           k < drawn w'
         \<and> (if has_updated_since_last_resolve f then f' = f \<and> w' = w else drawn w \<le> k)
         \<and> f' = Feature FeatureProbability
             ((''feature'', Property (VFeature c) None) # (''probability'', pp')
                # (''random_number'', Property (VReal (uniform w k)) (Some Rand)) # rest') u'"
  proof (cases "has_updated_since_last_resolve f")
    case True
    from node obtain c pp v rest where
      f: "f = Feature FeatureProbability
           ((''feature'', Property (VFeature c) None) # (''probability'', pp)
              # (''random_number'', Property v (Some Rand)) # rest) True"
      using True by (auto elim: Probability_node_shape)
    from upd have same: "f' = f \<and> w' = w" by (simp add: f)
    from held True obtain j where j: "j < drawn w"
      and "kwarg (current_value_dict (properties f)) ''random_number'' = VReal (uniform w j)"
      by blast
    then have v: "v = VReal (uniform w j)"
      by (cases pp) (simp add: f current_value_dict_def kwarg_def)
    from same j v True show ?thesis by (auto simp: f)
  next
    case False
    from node obtain c0 pp v rest where
      f: "f = Feature FeatureProbability
           ((''feature'', Property (VFeature c0) None) # (''probability'', pp)
              # (''random_number'', Property v (Some Rand)) # rest) False"
      using False by (auto elim: Probability_node_shape)
    from probability_pass [OF f upd] obtain c' pp' k rest' where
      "drawn w \<le> k" "k < drawn w'"
      "f' = Feature FeatureProbability
             ((''feature'', Property (VFeature c') None) # (''probability'', pp')
                # (''random_number'', Property (VReal (uniform w k)) (Some Rand)) # rest') True"
      by blast
    with False show ?thesis by (simp only: if_False) blast
  qed
  then obtain c pp' k rest' u' where
    hi: "k < drawn w'"
    and gate: "if has_updated_since_last_resolve f then f' = f \<and> w' = w else drawn w \<le> k"
    and f': "f' = Feature FeatureProbability
             ((''feature'', Property (VFeature c) None) # (''probability'', pp')
                # (''random_number'', Property (VReal (uniform w k)) (Some Rand)) # rest') u'"
    by blast
  obtain vp sp where pp': "pp' = Property vp sp" by (cases pp')
  have kf: "kwarg ?props ''feature'' = VFeature c"
    by (simp add: f' current_value_dict_def kwarg_def)
  have kr: "kwarg ?props ''random_number'' = VReal (uniform w k)"
    by (simp add: f' pp' current_value_dict_def kwarg_def)
  have kp: "kwarg ?props ''probability'' = vp"
    by (simp add: f' pp' current_value_dict_def kwarg_def)
  from thr kp have np: "number vp = Some p" by simp
  have g: "Feature_get f' img ?props =
             (if binds_positional ?props then Inl TypeError
              else if uniform w k < p
                then (case Feature_resolve c img of
                        Inl e \<Rightarrow> Inl e
                      | Inr (img', c') \<Rightarrow> Inr (img', store f' ''feature'' (VFeature c')))
                else Inr (img, f'))"
    by (rule probability_get_decides [OF f' [unfolded pp'] np])
  have bound: "(\<forall>j. 0 \<le> uniform w j \<and> uniform w j < 1) \<and> \<not> binds_positional ?props \<longrightarrow>
              (p = 0 \<longrightarrow> Feature_get f' img ?props = Inr (img, f'))
            \<and> (p = 1 \<longrightarrow> Feature_get f' img ?props =
                  (case Feature_resolve c img of
                     Inl e \<Rightarrow> Inl e
                   | Inr (img', c') \<Rightarrow> Inr (img', store f' ''feature'' (VFeature c'))))"
  proof (intro impI conjI)
    assume u: "(\<forall>j. 0 \<le> uniform w j \<and> uniform w j < 1) \<and> \<not> binds_positional ?props"
      and "p = 0"
    then have "\<not> uniform w k < p" by (simp add: not_less)
    with g u show "Feature_get f' img ?props = Inr (img, f')" by simp
  next
    assume u: "(\<forall>j. 0 \<le> uniform w j \<and> uniform w j < 1) \<and> \<not> binds_positional ?props"
      and "p = 1"
    then have "uniform w k < p" by simp
    with g u show "Feature_get f' img ?props =
                  (case Feature_resolve c img of
                     Inl e \<Rightarrow> Inl e
                   | Inr (img', c') \<Rightarrow> Inr (img', store f' ''feature'' (VFeature c')))"
      by simp
  qed
  from kf kr hi gate g bound show ?thesis by blast
qed

theorem probability_decides_on_held_draw_witness:
  "Probability_node (chance (add_one True) 1 (VReal (1 / 4)) True)
 \<and> Feature_update (chance (add_one True) 1 (VReal (1 / 4)) True) (stale 2)
     = Inr (chance (add_one True) 1 (VReal (1 / 4)) True, stale 2)
 \<and> kwarg (current_value_dict (properties (chance (add_one True) 1 (VReal (1 / 4)) True)))
       ''random_number'' = VReal (stale_draws 0)
 \<and> (\<forall>j. 0 \<le> uniform (stale 2) j \<and> uniform (stale 2) j < 1)
 \<and> \<not> binds_positional
       (current_value_dict (properties (chance (add_one True) 1 (VReal (1 / 4)) True)))
 \<and> Feature_get (chance (add_one True) 1 (VReal (1 / 4)) True) \<lparr>pixels = 0, metadata = []\<rparr>
       (current_value_dict (properties (chance (add_one True) 1 (VReal (1 / 4)) True)))
     = Inr (\<lparr>pixels = 1, metadata = [[(''value'', VInt 1)]]\<rparr>,
            chance (add_one False) 1 (VReal (1 / 4)) True)"
proof -
  let ?f = "chance (add_one True) 1 (VReal (1 / 4)) True"
  let ?img = "\<lparr>pixels = 0, metadata = []\<rparr>"
  let ?props = "current_value_dict (properties ?f)"
  have h1: "Probability_node ?f" by simp
  have k: "kwarg ?props ''random_number'' = VReal (stale_draws 0)"
    by (simp add: current_value_dict_def kwarg_def)
  have "(0::nat) < drawn (stale 2)" by simp
  with k have h2: "has_updated_since_last_resolve ?f \<longrightarrow>
      (\<exists>j<drawn (stale 2). kwarg ?props ''random_number'' = VReal (uniform (stale 2) j))"
    by (intro impI exI [of _ 0]) simp
  have h3: "Feature_update ?f (stale 2) = Inr (?f, stale 2)" by simp
  have h4: "number (kwarg ?props ''probability'') = Some 1"
    by (simp add: current_value_dict_def kwarg_def)
  have h5: "\<forall>j. 0 \<le> uniform (stale 2) j \<and> uniform (stale 2) j < 1"
    using stale_draws_unit by simp
  have nb: "\<not> binds_positional ?props"
    by (simp add: current_value_dict_def binds_positional_def)
  have r: "Feature_resolve (add_one True) ?img
             = Inr (\<lparr>pixels = 1, metadata = [[(''value'', VInt 1)]]\<rparr>, add_one False)"
    by (simp add: current_value_dict_def kwarg_def binds_positional_def Image_add_def
        Image_append_def)
  from probability_decides_on_held_draw [OF h1 h2 h3 h4, of ?img] obtain c where
    c: "kwarg ?props ''feature'' = VFeature c"
    and always: "(\<forall>j. 0 \<le> uniform (stale 2) j \<and> uniform (stale 2) j < 1)
                   \<and> \<not> binds_positional ?props \<longrightarrow>
                 ((1::real) = 1 \<longrightarrow> Feature_get ?f ?img ?props =
                    (case Feature_resolve c ?img of
                       Inl e \<Rightarrow> Inl e
                     | Inr (img', c') \<Rightarrow> Inr (img', store ?f ''feature'' (VFeature c'))))"
    by blast
  from c have c': "c = add_one True" by (simp add: current_value_dict_def kwarg_def)
  from always h5 nb have "Feature_get ?f ?img ?props =
                    (case Feature_resolve c ?img of
                       Inl e \<Rightarrow> Inl e
                     | Inr (img', c') \<Rightarrow> Inr (img', store ?f ''feature'' (VFeature c')))"
    by blast
  then have "Feature_get ?f ?img ?props
     = Inr (\<lparr>pixels = 1, metadata = [[(''value'', VInt 1)]]\<rparr>,
            chance (add_one False) 1 (VReal (1 / 4)) True)"
    unfolding c' r by (simp add: store_def)
  with h1 h3 k h5 nb show ?thesis by blast
qed

section \<open>Replicas\<close>

text \<open>
  \<^verbatim>\<open>copy.deepcopy\<close> copies the flag with the template. The \<^verbatim>\<open>update()\<close> of a copy of a
  template whose flag is set is therefore the skipped branch of \<^verbatim>\<open>Feature.update\<close>:
  every replica is the copy as \<^verbatim>\<open>deepcopy\<close> made it, and no draw is taken.
\<close>

lemma replicas_clean_template:
  "has_updated_since_last_resolve t \<Longrightarrow> copyable_feature t
     \<Longrightarrow> replicas (Replicas self t) n w = Inr (replicate n (VFeature (rebind_feature t)), w)"
proof (induction n)
  case 0
  then show ?case by simp
next
  case (Suc n)
  obtain k ps u where t: "t = Feature k ps u" by (cases t)
  with Suc show ?case by (simp add: deepcopy_def)
qed

text \<open>
  Claim C7. The claim says that every replica carries its own independently resampled
  property state. Here the template has a sampled property (\<open>four_times\<close> of a uniform
  draw) and has been updated once, which drew the value 2 and set its flag. The
  resample pass of \<^verbatim>\<open>template ** 3\<close> then stores three replicas that all hold the
  value 2, and the random source is where it was. With a template whose flag is clear
  the three replicas hold 2, 1 and 3, from three draws.
\<close>

theorem duplicate_of_updated_template_clones:
  "Feature_update (Add_init (Inr (Callable four_times))) (draws 0)
     = Inr (sampled_add (VInt 2) True, draws 1)
 \<and> Feature_pow (sampled_add (VInt 2) True) (Inl (VInt 3))
     = Inr (Feature (FeatureDuplicate (sampled_add (VInt 2) True))
              [(''num_duplicates'', Property (VInt 3) None),
               (''features'', Property VNone (Some (Replicas Owner (sampled_add (VInt 2) True))))]
              False)
 \<and> Feature_update
       (Feature (FeatureDuplicate (sampled_add (VInt 2) True))
              [(''num_duplicates'', Property (VInt 3) None),
               (''features'', Property VNone (Some (Replicas Owner (sampled_add (VInt 2) True))))]
              False) (draws 1)
     = Inr (Feature (FeatureDuplicate (sampled_add (VInt 2) True))
              [(''num_duplicates'', Property (VInt 3) None),
               (''features'', Property
                  (VList [VFeature (sampled_add (VInt 2) True),
                          VFeature (sampled_add (VInt 2) True),
                          VFeature (sampled_add (VInt 2) True)])
                  (Some (Replicas Owner (sampled_add (VInt 2) True))))]
              True, draws 1)
 \<and> Feature_update
       (Feature (FeatureDuplicate (sampled_add VNone False))
              [(''num_duplicates'', Property (VInt 3) None),
               (''features'', Property VNone (Some (Replicas Owner (sampled_add VNone False))))]
              False) (draws 0)
     = Inr (Feature (FeatureDuplicate (sampled_add VNone False))
              [(''num_duplicates'', Property (VInt 3) None),
               (''features'', Property
                  (VList [VFeature (sampled_add (VInt 2) True),
                          VFeature (sampled_add (VInt 1) True),
                          VFeature (sampled_add (VInt 3) True)])
                  (Some (Replicas Owner (sampled_add VNone False))))]
              True, draws 3)"
  by (simp add: Add_init_def Feature_init_def Property_init_def np_random_rand_def four_times_def
      Feature_pow_def FeatureDuplicate_init_def keyword_clash_def deepcopy_def read_count_def
      numeral_3_eq_3)

section \<open>Sequence\<close>

text \<open>
  Claim C4, as stated, fails: resolving \<^verbatim>\<open>Add(value=1) + Add(value=2)\<close> on the scalar
  artifact 0 returns 3, and the metadata has three records, not two. After the
  snapshots of the two children comes the snapshot of the sequence itself, which
  \<^verbatim>\<open>Feature.resolve\<close> appends for every feature.
\<close>

theorem sequence_trail_has_three_records:
  "Feature_add (add_one False) (Inl (VFeature (add_two False)))
     = Inr (Feature FeatureBranch
              [(''feature_1'', Property (VFeature (add_one False)) None),
               (''feature_2'', Property (VFeature (add_two False)) None)] False)
 \<and> Feature_resolve
       (Feature FeatureBranch
              [(''feature_1'', Property (VFeature (add_one False)) None),
               (''feature_2'', Property (VFeature (add_two False)) None)] False)
       \<lparr>pixels = 0, metadata = []\<rparr>
     = Inr (\<lparr>pixels = 3,
             metadata = [[(''value'', VInt 1)], [(''value'', VInt 2)],
                         [(''feature_1'', VFeature (add_one False)),
                          (''feature_2'', VFeature (add_two False))]]\<rparr>,
            Feature FeatureBranch
              [(''feature_1'', Property (VFeature (add_one False)) None),
               (''feature_2'', Property (VFeature (add_two False)) None)] False)
 \<and> [[(''value'', VInt 1)], [(''value'', VInt 2)],
      [(''feature_1'', VFeature (add_one False)), (''feature_2'', VFeature (add_two False))]]
     \<noteq> [[(''value'', VInt 1)], [(''value'', VInt 2)]]"
  by (simp add: Feature_add_def FeatureBranch_init_def keyword_clash_def Feature_init_def
      Property_init_def current_value_dict_def kwarg_def binds_positional_def Image_add_def Image_append_def store_def)

text \<open>
  Claim C4, amended. For a sequence of a node adding \<open>a\<close> and a node adding \<open>b\<close>,
  resolving on an image returns the image with \<open>a + b\<close> added: the first node is
  resolved on the input, the second on what the first returned, and the metadata is
  extended by the snapshot of the first node, the snapshot of the second node and the
  snapshot of the sequence node, in that order.
\<close>

theorem sequence_adds_in_order:
  "Feature_add (Add_init (Inl (VInt a))) (Inl (VFeature (Add_init (Inl (VInt b)))))
     = Inr (Feature FeatureBranch
              [(''feature_1'', Property (VFeature (Add_init (Inl (VInt a)))) None),
               (''feature_2'', Property (VFeature (Add_init (Inl (VInt b)))) None)] False)
 \<and> Feature_resolve (Add_init (Inl (VInt a))) img
     = Inr (img\<lparr>pixels := pixels img + a, metadata := metadata img @ [[(''value'', VInt a)]]\<rparr>,
            Add_init (Inl (VInt a)))
 \<and> Feature_resolve (Add_init (Inl (VInt b)))
       (img\<lparr>pixels := pixels img + a, metadata := metadata img @ [[(''value'', VInt a)]]\<rparr>)
     = Inr (img\<lparr>pixels := pixels img + a + b,
                 metadata := metadata img @ [[(''value'', VInt a)], [(''value'', VInt b)]]\<rparr>,
            Add_init (Inl (VInt b)))
 \<and> Feature_resolve
       (Feature FeatureBranch
              [(''feature_1'', Property (VFeature (Add_init (Inl (VInt a)))) None),
               (''feature_2'', Property (VFeature (Add_init (Inl (VInt b)))) None)] False) img
     = Inr (img\<lparr>pixels := pixels img + a + b,
                 metadata := metadata img @
                   [[(''value'', VInt a)], [(''value'', VInt b)],
                    [(''feature_1'', VFeature (Add_init (Inl (VInt a)))),
                     (''feature_2'', VFeature (Add_init (Inl (VInt b))))]]\<rparr>,
            Feature FeatureBranch
              [(''feature_1'', Property (VFeature (Add_init (Inl (VInt a)))) None),
               (''feature_2'', Property (VFeature (Add_init (Inl (VInt b)))) None)] False)"
  by (simp add: Feature_add_def FeatureBranch_init_def keyword_clash_def Feature_init_def
      Property_init_def Add_init_def current_value_dict_def kwarg_def binds_positional_def Image_add_def
      Image_append_def store_def)

theorem sequence_adds_in_order_witness:
  "Feature_resolve
       (Feature FeatureBranch
              [(''feature_1'', Property (VFeature (Add_init (Inl (VInt 1)))) None),
               (''feature_2'', Property (VFeature (Add_init (Inl (VInt 2)))) None)] False)
       \<lparr>pixels = 0, metadata = []\<rparr>
     = Inr (\<lparr>pixels = 3,
             metadata = [[(''value'', VInt 1)], [(''value'', VInt 2)],
                    [(''feature_1'', VFeature (Add_init (Inl (VInt 1)))),
                     (''feature_2'', VFeature (Add_init (Inl (VInt 2))))]]\<rparr>,
            Feature FeatureBranch
              [(''feature_1'', Property (VFeature (Add_init (Inl (VInt 1)))) None),
               (''feature_2'', Property (VFeature (Add_init (Inl (VInt 2)))) None)] False)"
  using sequence_adds_in_order [of 1 2 "\<lparr>pixels = 0, metadata = []\<rparr>"] by simp

section \<open>Load\<close>

text \<open>
  Claim C8. The claim says that a Load used as a non-root child of a Sequence raises an
  error when the tree is built. \<^verbatim>\<open>Load.setParent\<close> raises (\<^verbatim>\<open>The Load class cannot
  have a parent\<close>), but \<^verbatim>\<open>Feature.__add__\<close> calls \<^verbatim>\<open>FeatureBranch.__init__\<close>, which
  stores its two arguments as properties and never calls \<^verbatim>\<open>setParent\<close>:
  \<^verbatim>\<open>Add(value=1) + Load(path)\<close> is built without error, and a round of it on the
  artifact 0 returns 11. The Load has added its first item, 10, to the 1 that the
  first child passed to it.
\<close>

theorem load_as_second_child_is_built:
  "Load_setParent (Load_init ''data'' tens) (add_one False) = Inl Exception
 \<and> Feature_add (add_one False) (Inl (VFeature (Load_init ''data'' tens)))
     = Inr (Feature FeatureBranch
              [(''feature_1'', Property (VFeature (add_one False)) None),
               (''feature_2'', Property (VFeature (load_tens VNone 0 False)) None)] False)
 \<and> generation_round
       (Feature FeatureBranch
              [(''feature_1'', Property (VFeature (add_one False)) None),
               (''feature_2'', Property (VFeature (load_tens VNone 0 False)) None)] False)
       (draws 0) \<lparr>pixels = 0, metadata = []\<rparr>
     = Inr (\<lparr>pixels = 11,
             metadata = [[(''value'', VInt 1)], [(''loaded_image'', VInt 10)],
                         [(''feature_1'', VFeature (add_one True)),
                          (''feature_2'', VFeature (load_tens (VInt 10) 1 True))]]\<rparr>,
            Feature FeatureBranch
              [(''feature_1'', Property (VFeature (add_one False)) None),
               (''feature_2'', Property (VFeature (load_tens (VInt 10) 1 False)) None)] False,
            draws 0)"
  by (simp add: Load_setParent_def Feature_add_def FeatureBranch_init_def keyword_clash_def
      Feature_init_def Property_init_def Load_init_def generation_round_def tens_def
      current_value_dict_def kwarg_def binds_positional_def Image_add_def Image_append_def
      store_def)

text \<open>
  The same for any first child and any Load: the sequence is built, and a Load resolved
  on an upstream image adds the artifact it holds to that image.
\<close>

lemma load_adds_to_upstream:
  "Load_setParent l F = Inl Exception
 \<and> FeatureBranch_init (Inl (VFeature F1)) (Inl (VFeature (Load_init path items))) []
     = Inr (Feature FeatureBranch
              [(''feature_1'', Property (VFeature F1) None),
               (''feature_2'', Property (VFeature (Load_init path items)) None)] False)
 \<and> Feature_add F1 (Inl (VFeature (Load_init path items)))
     = FeatureBranch_init (Inl (VFeature F1)) (Inl (VFeature (Load_init path items))) []
 \<and> Feature_resolve
       (Feature (Load path) [(''loaded_image'', Property (VInt r) (Some (Generator items k)))] u)
       upstream
     = Inr (upstream\<lparr>pixels := pixels upstream + r,
                      metadata := metadata upstream @ [[(''loaded_image'', VInt r)]]\<rparr>,
            Feature (Load path)
              [(''loaded_image'', Property (VInt r) (Some (Generator items k)))] False)"
  by (simp add: Load_setParent_def Feature_add_def FeatureBranch_init_def keyword_clash_def
      Feature_init_def Property_init_def Load_init_def current_value_dict_def kwarg_def binds_positional_def
      Image_add_def Image_append_def)

lemma load_resolve:
  "Feature_resolve
       (Feature (Load path) [(''loaded_image'', Property (VInt r) (Some (Generator items k)))] u)
       img
     = Inr (img\<lparr>pixels := pixels img + r,
                 metadata := metadata img @ [[(''loaded_image'', VInt r)]]\<rparr>,
            Feature (Load path)
              [(''loaded_image'', Property (VInt r) (Some (Generator items k)))] False)"
  by (simp add: current_value_dict_def kwarg_def binds_positional_def Image_add_def Image_append_def)

lemma load_round:
  "generation_round
       (Feature (Load path) [(''loaded_image'', Property v (Some (Generator items pos)))] False)
       w img
     = Inr (img\<lparr>pixels := pixels img + items pos,
                 metadata := metadata img @ [[(''loaded_image'', VInt (items pos))]]\<rparr>,
            Feature (Load path)
              [(''loaded_image'', Property (VInt (items pos)) (Some (Generator items (Suc pos))))]
              False, w)"
  by (simp add: generation_round_def current_value_dict_def kwarg_def binds_positional_def Image_add_def
      Image_append_def)

lemma load_rounds:
  "generation_rounds n
       (Feature (Load path) [(''loaded_image'', Property v (Some (Generator items pos)))] False)
       w img
     = Inr (img\<lparr>pixels := pixels img + (\<Sum>i<n. items (pos + i)),
                 metadata := metadata img @
                   map (\<lambda>i. [(''loaded_image'', VInt (items i))]) [pos..<pos + n]\<rparr>,
            Feature (Load path)
              [(''loaded_image'',
                Property (if n = 0 then v else VInt (items (pos + n - 1)))
                  (Some (Generator items (pos + n))))]
              False, w)"
proof (induction n arbitrary: v pos img)
  case 0
  then show ?case by simp
next
  case (Suc n)
  let ?img1 = "img\<lparr>pixels := pixels img + items pos,
                 metadata := metadata img @ [[(''loaded_image'', VInt (items pos))]]\<rparr>"
  have step: "generation_rounds (Suc n)
       (Feature (Load path) [(''loaded_image'', Property v (Some (Generator items pos)))] False)
       w img
     = generation_rounds n
         (Feature (Load path)
              [(''loaded_image'', Property (VInt (items pos)) (Some (Generator items (Suc pos))))]
              False) w ?img1"
    by (simp add: load_round)
  have sum: "(\<Sum>i<Suc n. items (pos + i)) = items pos + (\<Sum>i<n. items (Suc pos + i))"
    using sum.lessThan_Suc_shift [of "\<lambda>i. items (pos + i)" n] by simp
  have upt: "[pos..<pos + Suc n] = pos # [Suc pos..<Suc pos + n]"
    by (simp add: upt_conv_Cons)
  show ?case
    unfolding step Suc.IH [of "VInt (items pos)" "Suc pos" ?img1] sum upt
    by (cases "n = 0") simp_all
qed

text \<open>
  Claim C9. \<^verbatim>\<open>Load.get\<close> adds to the input image the raw artifact held by the property
  \<^verbatim>\<open>loaded_image\<close>, which the resample pass of \<^verbatim>\<open>update()\<close> has drawn from the
  generator. A round of a Load node whose generator stands at position \<open>pos\<close> adds
  item \<open>pos\<close> and leaves the generator at \<open>pos + 1\<close>; \<open>n\<close> rounds of a new Load node add
  the items \<open>0, ..., n - 1\<close> of the sequence, one after the other.
\<close>

theorem load_rounds_consume_successive_items:
  "generation_round
       (Feature (Load path) [(''loaded_image'', Property v (Some (Generator items pos)))] False)
       w img
     = Inr (img\<lparr>pixels := pixels img + items pos,
                 metadata := metadata img @ [[(''loaded_image'', VInt (items pos))]]\<rparr>,
            Feature (Load path)
              [(''loaded_image'', Property (VInt (items pos)) (Some (Generator items (Suc pos))))]
              False, w)
 \<and> generation_rounds n (Load_init path items) w img
     = Inr (img\<lparr>pixels := pixels img + (\<Sum>i<n. items i),
                 metadata := metadata img @
                   map (\<lambda>i. [(''loaded_image'', VInt (items i))]) [0..<n]\<rparr>,
            Feature (Load path)
              [(''loaded_image'',
                Property (if n = 0 then VNone else VInt (items (n - 1)))
                  (Some (Generator items n)))]
              False, w)"
  using load_round [of path v items pos w img] load_rounds [of n path VNone items 0 w img]
  by (simp add: Load_init_def Feature_init_def Property_init_def)

theorem load_rounds_consume_successive_items_witness:
  "generation_rounds 2 (Load_init ''data'' tens) (draws 0) \<lparr>pixels = 0, metadata = []\<rparr>
     = Inr (\<lparr>pixels = 30,
             metadata = [[(''loaded_image'', VInt 10)], [(''loaded_image'', VInt 20)]]\<rparr>,
            load_tens (VInt 20) 2 False, draws 0)"
  using load_rounds_consume_successive_items
          [of "''data''" VNone tens 0 "draws 0" "\<lparr>pixels = 0, metadata = []\<rparr>" 2]
  by (simp add: tens_def numeral_2_eq_2)

text \<open>
  The draw is made by \<^verbatim>\<open>update()\<close>, not by \<^verbatim>\<open>get\<close>: after one \<^verbatim>\<open>update()\<close>, two calls
  of \<^verbatim>\<open>resolve\<close> both add item 0 of the sequence (10), not item 1 (20).
\<close>

lemma load_resolved_twice_adds_same_item:
  "Feature_update (Load_init ''data'' tens) (draws 0) = Inr (load_tens (VInt 10) 1 True, draws 0)
 \<and> Feature_resolve (load_tens (VInt 10) 1 True) \<lparr>pixels = 0, metadata = []\<rparr>
     = Inr (\<lparr>pixels = 10, metadata = [[(''loaded_image'', VInt 10)]]\<rparr>,
            load_tens (VInt 10) 1 False)
 \<and> Feature_resolve (load_tens (VInt 10) 1 False) \<lparr>pixels = 0, metadata = []\<rparr>
     = Inr (\<lparr>pixels = 10, metadata = [[(''loaded_image'', VInt 10)]]\<rparr>,
            load_tens (VInt 10) 1 False)
 \<and> tens 0 = 10 \<and> tens 1 = 20"
  by (simp add: Load_init_def Feature_init_def Property_init_def tens_def current_value_dict_def
      kwarg_def binds_positional_def Image_add_def Image_append_def)

end
